theory Spec2Isabelle
  imports Complex_Main
begin

section \<open>JavaScript values and strings\<close>

text \<open>
  The action is JavaScript. Strings are modelled as HOL strings; the inputs of the
  action (names of secrets and variables, resource names) are taken to be ASCII, so
  \<open>toLowerCase\<close> and \<open>toUpperCase\<close> act on the letters A-Z and a-z and leave every other
  character alone.
\<close>

definition upper_letters :: string where
  "upper_letters = ''ABCDEFGHIJKLMNOPQRSTUVWXYZ''"

definition lower_letters :: string where
  "lower_letters = ''abcdefghijklmnopqrstuvwxyz''"

definition lower_char :: "char \<Rightarrow> char" where
  "lower_char c = (case map_of (zip upper_letters lower_letters) c of Some d \<Rightarrow> d | None \<Rightarrow> c)"

definition upper_char :: "char \<Rightarrow> char" where
  "upper_char c = (case map_of (zip lower_letters upper_letters) c of Some d \<Rightarrow> d | None \<Rightarrow> c)"

definition toLowerCase :: "string \<Rightarrow> string" where
  "toLowerCase s = map lower_char s"

definition toUpperCase :: "string \<Rightarrow> string" where
  "toUpperCase s = map upper_char s"

text \<open>\<open>s.replaceAll(a, b)\<close> for single characters \<open>a\<close> and \<open>b\<close>.\<close>

definition replaceAll :: "char \<Rightarrow> char \<Rightarrow> string \<Rightarrow> string" where
  "replaceAll a b s = map (\<lambda>c. if c = a then b else c) s"

text \<open>
  The values \<open>JSON.parse\<close> yields. An object carries its own properties in the order
  \<open>Object.entries\<close> lists them; its keys are distinct. Numbers carry their value.
\<close>

datatype jsval =
    JNull
  | JBool bool
  | JNum rat
  | JStr string
  | JArr "jsval list"
  | JObj "(string \<times> jsval) list"

text \<open>What \<open>if (value)\<close> tests.\<close>

fun truthy :: "jsval \<Rightarrow> bool" where
  "truthy JNull = False"
| "truthy (JBool b) = b"
| "truthy (JNum r) = (r \<noteq> 0)"
| "truthy (JStr s) = (s \<noteq> [])"
| "truthy (JArr xs) = True"
| "truthy (JObj kvs) = True"

text \<open>A thrown \<open>Error\<close>: its name and its message.\<close>

record error =
  err_name :: string
  err_message :: string

definition Error :: "string \<Rightarrow> error" where
  "Error msg = \<lparr>err_name = ''Error'', err_message = msg\<rparr>"

definition TypeError :: "string \<Rightarrow> error" where
  "TypeError msg = \<lparr>err_name = ''TypeError'', err_message = msg\<rparr>"

text \<open>Decimal rendering of numbers, as a template literal prints an integer.\<close>

definition digit_char :: "nat \<Rightarrow> char" where
  "digit_char d = ''0123456789'' ! d"

fun decimal :: "nat \<Rightarrow> string" where
  "decimal n = (if n < 10 then [digit_char n] else decimal (n div 10) @ [digit_char (n mod 10)])"

declare decimal.simps [simp del]

definition show_int :: "int \<Rightarrow> string" where
  "show_int i = (if i < 0 then CHR ''-'' # decimal (nat (- i)) else decimal (nat i))"

text \<open>
  \<open>Object.entries\<close>: the properties of an object, the indexed elements of an array or
  of a string, nothing for a number or a boolean, and a \<open>TypeError\<close> for \<open>null\<close>.
\<close>

definition object_entries :: "jsval \<Rightarrow> error + (string \<times> jsval) list" where
  "object_entries v =
     (case v of
        JNull \<Rightarrow> Inl (TypeError ''Cannot convert undefined or null to object'')
      | JBool b \<Rightarrow> Inr []
      | JNum r \<Rightarrow> Inr []
      | JStr s \<Rightarrow> Inr (map (\<lambda>i. (decimal i, JStr [s ! i])) [0..<length s])
      | JArr xs \<Rightarrow> Inr (map (\<lambda>i. (decimal i, xs ! i)) [0..<length xs])
      | JObj kvs \<Rightarrow> Inr kvs)"

section \<open>The job document (config.js)\<close>

text \<open>The \<open>config\<close> argument of \<open>buildJobConfig\<close>; \<open>command\<close> is an array or undefined.\<close>

record config =
  cfg_image :: string
  cfg_command :: "string list option"
  cfg_userManagedIdentity :: string
  cfg_environmentVariables :: jsval
  cfg_secrets :: jsval
  cfg_cpu :: string
  cfg_memory :: string
  cfg_registryServer :: string
  cfg_registryUsername :: string
  cfg_registryPassword :: string
  cfg_cronSchedule :: string

text \<open>An entry of the container's \<open>env\<close> list: a literal value or a reference to a secret.\<close>

datatype env_entry =
    EnvValue string jsval
  | EnvSecretRef string string

text \<open>
  An entry of the \<open>secrets\<close> list: \<open>{name, keyVaultUrl, identity}\<close> for a secret of the
  mapping, \<open>{name, value}\<close> for the registry password.
\<close>

datatype secret_item =
    KeyVaultSecret string jsval string
  | ValueSecret string string

fun secret_name :: "secret_item \<Rightarrow> string" where
  "secret_name (KeyVaultSecret n u i) = n"
| "secret_name (ValueSecret n v) = n"

record registry_item =
  reg_server :: string
  reg_username :: string
  reg_passwordSecretRef :: string

text \<open>\<open>Number.parseFloat(cpu)\<close> is kept as the text it is applied to.\<close>

datatype jsfloat = ParseFloat string

record container =
  ct_name :: string
  ct_image :: string
  ct_cpu :: jsfloat
  ct_memory :: string
  ct_env :: "env_entry list"
  ct_command :: "string list option"

datatype trigger_config =
    ScheduleTriggerConfig string nat nat
  | ManualTriggerConfig nat nat

record configuration =
  cf_triggerType :: string
  cf_replicaTimeout :: nat
  cf_replicaRetryLimit :: nat
  cf_triggerConfig :: trigger_config
  cf_secrets :: "secret_item list"
  cf_registries :: "registry_item list"

record identity =
  id_type :: string
  id_userAssignedIdentities :: "string list"

record job_config =
  jc_configuration :: configuration
  jc_environmentId :: string
  jc_location :: string
  jc_workLoadProfileName :: string
  jc_containers :: "container list"
  jc_identity :: "identity option"

text \<open>The first loop of \<open>buildJobConfig\<close>: one \<open>{name, value}\<close> per environment variable.\<close>

definition env_of_variables :: "(string \<times> jsval) list \<Rightarrow> env_entry list" where
  "env_of_variables evs = map (\<lambda>(key, v). EnvValue key v) evs"

definition normalize_secret_name :: "string \<Rightarrow> string" where
  "normalize_secret_name key = replaceAll (CHR ''_'') (CHR ''-'') (toLowerCase key)"

text \<open>
  The second loop: for each entry with a truthy value, a descriptor is pushed on the
  secrets array and a reference on the environment array. The state of the loop is the
  pair of arrays.
\<close>

fun secrets_loop ::
  "string \<Rightarrow> (string \<times> jsval) list \<Rightarrow> secret_item list \<times> env_entry list
     \<Rightarrow> secret_item list \<times> env_entry list" where
  "secrets_loop ident [] (secretsArray, envVars) = (secretsArray, envVars)"
| "secrets_loop ident ((key, v) # rest) (secretsArray, envVars) =
     (let secretName = normalize_secret_name key in
      if truthy v
      then secrets_loop ident rest
             (secretsArray @ [KeyVaultSecret secretName v ident],
              envVars @ [EnvSecretRef key secretName])
      else secrets_loop ident rest (secretsArray, envVars))"

text \<open>The test \<open>registryServer && registryUsername && registryPassword\<close>.\<close>

definition registry_given :: "config \<Rightarrow> bool" where
  "registry_given cfg =
     (cfg_registryServer cfg \<noteq> [] \<and> cfg_registryUsername cfg \<noteq> []
        \<and> cfg_registryPassword cfg \<noteq> [])"

definition assemble ::
  "string \<Rightarrow> string \<Rightarrow> string \<Rightarrow> string \<Rightarrow> config
     \<Rightarrow> (string \<times> jsval) list \<Rightarrow> (string \<times> jsval) list \<Rightarrow> job_config" where
  "assemble subscriptionId resourceGroup environmentName location cfg evs secs =
     (let envVars0 = env_of_variables evs;
          (secretsArray0, envVars) =
             secrets_loop (cfg_userManagedIdentity cfg) secs ([], envVars0);
          container = \<lparr>ct_name = ''main'', ct_image = cfg_image cfg,
                       ct_cpu = ParseFloat (cfg_cpu cfg), ct_memory = cfg_memory cfg,
                       ct_env = envVars, ct_command = cfg_command cfg\<rparr>;
          registries =
            (if registry_given cfg
             then [\<lparr>reg_server = cfg_registryServer cfg,
                    reg_username = cfg_registryUsername cfg,
                    reg_passwordSecretRef = ''registry-password''\<rparr>]
             else []);
          secretsArray =
            (if registry_given cfg
             then secretsArray0 @ [ValueSecret ''registry-password'' (cfg_registryPassword cfg)]
             else secretsArray0);
          triggerType = (if cfg_cronSchedule cfg \<noteq> [] then ''Schedule'' else ''Manual'');
          triggerConfig =
            (if cfg_cronSchedule cfg \<noteq> []
             then ScheduleTriggerConfig (cfg_cronSchedule cfg) 1 1
             else ManualTriggerConfig 1 1)
      in \<lparr>jc_configuration =
            \<lparr>cf_triggerType = triggerType, cf_replicaTimeout = 1800,
             cf_replicaRetryLimit = 0, cf_triggerConfig = triggerConfig,
             cf_secrets = secretsArray, cf_registries = registries\<rparr>,
          jc_environmentId =
            ''/subscriptions/'' @ subscriptionId @ ''/resourceGroups/'' @ resourceGroup
              @ ''/providers/Microsoft.App/managedEnvironments/'' @ environmentName,
          jc_location = location,
          jc_workLoadProfileName = ''Consumption'',
          jc_containers = [container],
          jc_identity =
            (if cfg_userManagedIdentity cfg \<noteq> []
             then Some \<lparr>id_type = ''UserAssigned'',
                        id_userAssignedIdentities = [cfg_userManagedIdentity cfg]\<rparr>
             else None)\<rparr>)"

text \<open>
  \<open>buildJobConfig\<close>: the two \<open>Object.entries\<close> calls can throw, everything after them
  is the pure assembly above.
\<close>

definition buildJobConfig ::
  "string \<Rightarrow> string \<Rightarrow> string \<Rightarrow> string \<Rightarrow> config \<Rightarrow> error + job_config" where
  "buildJobConfig subscriptionId resourceGroup environmentName location cfg =
     (case object_entries (cfg_environmentVariables cfg) of
        Inl e \<Rightarrow> Inl e
      | Inr evs \<Rightarrow>
          (case object_entries (cfg_secrets cfg) of
             Inl e \<Rightarrow> Inl e
           | Inr secs \<Rightarrow>
               Inr (assemble subscriptionId resourceGroup environmentName location cfg evs secs)))"

text \<open>Views of the document that the properties below speak about.\<close>

definition doc_secrets :: "job_config \<Rightarrow> secret_item list" where
  "doc_secrets doc = cf_secrets (jc_configuration doc)"

definition doc_registries :: "job_config \<Rightarrow> registry_item list" where
  "doc_registries doc = cf_registries (jc_configuration doc)"

definition doc_env :: "job_config \<Rightarrow> env_entry list" where
  "doc_env doc = concat (map ct_env (jc_containers doc))"

fun is_value_secret :: "secret_item \<Rightarrow> bool" where
  "is_value_secret (ValueSecret n v) = True"
| "is_value_secret (KeyVaultSecret n u i) = False"

fun is_secret_ref_for :: "string \<Rightarrow> env_entry \<Rightarrow> bool" where
  "is_secret_ref_for key (EnvSecretRef n r) = (n = key)"
| "is_secret_ref_for key (EnvValue n v) = False"

section \<open>Reading the inputs (input.js, utils.js)\<close>

text \<open>White space is the ASCII white space: space, tab, line feed, vertical tab, form feed, carriage return.\<close>

definition is_space :: "char \<Rightarrow> bool" where
  "is_space c = (c \<in> set [CHR '' '', CHR 0x09, CHR 0x0A, CHR 0x0B, CHR 0x0C, CHR 0x0D])"

definition trim :: "string \<Rightarrow> string" where
  "trim s = rev (dropWhile is_space (rev (dropWhile is_space s)))"

text \<open>\<open>s.split(/\s+/)\<close> on a trimmed, non-empty string: its maximal runs of other characters.\<close>

fun split_ws :: "string \<Rightarrow> string \<Rightarrow> string list" where
  "split_ws cur [] = (if cur = [] then [] else [rev cur])"
| "split_ws cur (c # cs) =
     (if is_space c then (if cur = [] then split_ws [] cs else rev cur # split_ws [] cs)
      else split_ws (c # cur) cs)"

definition parseCommand :: "string \<Rightarrow> string list option" where
  "parseCommand commandString =
     (if commandString = [] \<or> trim commandString = [] then None
      else Some (split_ws [] (trim commandString)))"

text \<open>The result of \<open>Number.parseInt\<close>: an integer or \<open>NaN\<close>.\<close>

datatype jsint = NaN | Num int

definition is_digit :: "char \<Rightarrow> bool" where
  "is_digit c = (c \<in> set ''0123456789'')"

definition digit_value :: "char \<Rightarrow> nat" where
  "digit_value c = length (takeWhile (\<lambda>d. d \<noteq> c) ''0123456789'')"

definition digits_value :: "string \<Rightarrow> nat" where
  "digits_value ds = foldl (\<lambda>acc c. 10 * acc + digit_value c) 0 ds"

text \<open>\<open>Number.parseInt(s, 10)\<close>: leading white space, a sign, then the longest run of digits.\<close>

definition parseInt10 :: "string \<Rightarrow> jsint" where
  "parseInt10 s =
     (let t = dropWhile is_space s;
          neg = (t \<noteq> [] \<and> hd t = CHR ''-'');
          u = (if t \<noteq> [] \<and> (hd t = CHR ''-'' \<or> hd t = CHR ''+'') then tl t else t);
          ds = takeWhile is_digit u
      in if ds = [] then NaN
         else Num (if neg then - int (digits_value ds) else int (digits_value ds)))"

definition show_jsint :: "jsint \<Rightarrow> string" where
  "show_jsint n = (case n of NaN \<Rightarrow> ''NaN'' | Num i \<Rightarrow> show_int i)"

text \<open>How a template literal prints a string that may be \<open>undefined\<close>.\<close>

definition show_opt :: "string option \<Rightarrow> string" where
  "show_opt s = (case s of None \<Rightarrow> ''undefined'' | Some t \<Rightarrow> t)"

section \<open>The world outside the action\<close>

text \<open>
  An execution as the provider reports it. \<open>pollJobExecution\<close> reads \<open>execution.status\<close>,
  \<open>run\<close> reads \<open>execution.properties.status\<close> and
  \<open>execution.properties.template.containers[0].exitCode\<close>; \<open>pr_exitCode\<close> is the value at
  the end of that optional chain, \<open>None\<close> when a link of the chain is missing.
\<close>

record properties =
  pr_status :: "string option"
  pr_exitCode :: "int option"

record execution =
  ex_name :: string
  ex_status :: "string option"
  ex_properties :: "properties option"

text \<open>The answer of the log store: rows are pairs of a time stamp and a message.\<close>

record query_result =
  qr_status :: string
  qr_tables :: "(string \<times> string) list list option"
  qr_partialError :: "error list"

text \<open>
  Everything the action reads from outside: the inputs (through \<open>core.getInput\<close>, whose
  value is the empty string when the input is absent or the call throws, and through
  \<open>process.env\<close>), \<open>JSON.parse\<close>, the clock and the random source of
  \<open>generateJobName\<close> (the latter as the text \<open>Math.random().toString(36)\<close>), the answers
  of the provider to each remote call, and the clock readings of the poll loop: the one
  before the loop and the one at the top of iteration \<open>i\<close>, with the answer to the status
  fetch of iteration \<open>i\<close>.
\<close>

record world =
  w_core_getInput :: "string \<Rightarrow> string"
  w_process_env :: "string \<Rightarrow> string option"
  w_JSON_parse :: "string \<Rightarrow> error + jsval"
  w_name_time :: int
  w_random36 :: string
  w_environment :: "error + string option"
  w_createOrUpdate :: "error + unit"
  w_start :: "error + execution"
  w_poll_startTime :: int
  w_poll_now :: "nat \<Rightarrow> int"
  w_jobExecution :: "nat \<Rightarrow> error + execution option"
  w_delete :: "error + unit"
  w_logs :: "error + query_result"

text \<open>What the action does to the outside: remote calls, log lines, outputs, sleeping.\<close>

datatype remote_call =
    EnvironmentGet string string
  | CreateOrUpdate string string job_config
  | StartExecution string string
  | ExecutionGet string string string
  | DeleteJob string string
  | LogsQuery string string

datatype event =
    Remote remote_call
  | Info string
  | Warning string
  | ErrorLog string
  | ErrorStack error
  | SetOutput string string
  | SetFailed string
  | Sleep nat

text \<open>\<open>getInput(name, options)\<close> of input.js.\<close>

definition getInput :: "world \<Rightarrow> string \<Rightarrow> bool \<Rightarrow> error + string" where
  "getInput w name required =
     (let val0 = w_core_getInput w name;
          val = (if val0 = []
                 then (let envName = ''INPUT_'' @ toUpperCase (replaceAll (CHR ''-'') (CHR ''_'') name)
                       in case w_process_env w envName of None \<Rightarrow> [] | Some v \<Rightarrow> v)
                 else val0)
      in if required \<and> val = []
         then Inl (Error (''Input required and not supplied: '' @ name))
         else Inr val)"

text \<open>A read that is not required cannot throw; this is its value.\<close>

definition getOptional :: "world \<Rightarrow> string \<Rightarrow> string" where
  "getOptional w name = (case getInput w name False of Inl e \<Rightarrow> [] | Inr v \<Rightarrow> v)"

definition parseJsonInput :: "world \<Rightarrow> string \<Rightarrow> error + jsval" where
  "parseJsonInput w inputName =
     (let input = getOptional w inputName in
      if input = [] \<or> trim input = [] then Inr (JObj [])
      else (case w_JSON_parse w input of
              Inr v \<Rightarrow> Inr v
            | Inl e \<Rightarrow> Inl (Error (''Failed to parse '' @ inputName @ '': '' @ err_message e))))"

record inputs =
  in_subscriptionId :: string
  in_resourceGroup :: string
  in_environmentName :: string
  in_jobName :: string
  in_image :: string
  in_command :: "string list option"
  in_userManagedIdentity :: string
  in_cronSchedule :: string
  in_cpu :: string
  in_memory :: string
  in_timeout :: jsint
  in_registryServer :: string
  in_registryUsername :: string
  in_registryPassword :: string
  in_dryRun :: bool
  in_logAnalyticsWorkspaceId :: string
  in_manualExecution :: bool
  in_onlyDeleteJob :: bool
  in_environmentVariables :: jsval
  in_secrets :: jsval

definition or_default :: "string \<Rightarrow> string \<Rightarrow> string" where
  "or_default s d = (if s = [] then d else s)"

definition getInputs :: "world \<Rightarrow> error + inputs" where
  "getInputs w =
     (case getInput w ''subscription-id'' True of
        Inl e \<Rightarrow> Inl e
      | Inr subscriptionId \<Rightarrow>
     (case getInput w ''resource-group'' True of
        Inl e \<Rightarrow> Inl e
      | Inr resourceGroup \<Rightarrow>
     (case getInput w ''environment-name'' True of
        Inl e \<Rightarrow> Inl e
      | Inr environmentName \<Rightarrow>
     (let jobName = getOptional w ''job-name'';
          image = getOptional w ''image'';
          commandString = getOptional w ''command'';
          userManagedIdentity = getOptional w ''user-managed-identity'';
          cronSchedule = getOptional w ''cron-schedule'';
          cpu = or_default (getOptional w ''cpu'') ''0.5'';
          memory = or_default (getOptional w ''memory'') ''1Gi'';
          timeout = parseInt10 (or_default (getOptional w ''timeout'') ''1800'');
          registryServer = getOptional w ''registry-server'';
          registryUsername = getOptional w ''registry-username'';
          registryPassword = getOptional w ''registry-password'';
          dryRun = (toLowerCase (getOptional w ''dry-run'') = ''true'');
          logAnalyticsWorkspaceId = getOptional w ''log-analytics-workspace-id'';
          manualExecution = (toLowerCase (getOptional w ''manual-execution'') = ''true'');
          onlyDeleteJob = (toLowerCase (getOptional w ''only-delete-job'') = ''true'')
      in
     (case parseJsonInput w ''environment-variables'' of
        Inl e \<Rightarrow> Inl e
      | Inr environmentVariables \<Rightarrow>
     (case parseJsonInput w ''secrets'' of
        Inl e \<Rightarrow> Inl e
      | Inr secrets \<Rightarrow>
          Inr \<lparr>in_subscriptionId = subscriptionId, in_resourceGroup = resourceGroup,
               in_environmentName = environmentName, in_jobName = jobName, in_image = image,
               in_command = parseCommand commandString,
               in_userManagedIdentity = userManagedIdentity, in_cronSchedule = cronSchedule,
               in_cpu = cpu, in_memory = memory, in_timeout = timeout,
               in_registryServer = registryServer, in_registryUsername = registryUsername,
               in_registryPassword = registryPassword, in_dryRun = dryRun,
               in_logAnalyticsWorkspaceId = logAnalyticsWorkspaceId,
               in_manualExecution = manualExecution, in_onlyDeleteJob = onlyDeleteJob,
               in_environmentVariables = environmentVariables, in_secrets = secrets\<rparr>))))))"

text \<open>\<open>s.substring(a, b)\<close> for \<open>a \<le> b\<close>.\<close>

definition substring :: "nat \<Rightarrow> nat \<Rightarrow> string \<Rightarrow> string" where
  "substring a b s = take (b - a) (drop a s)"

definition generateJobName :: "world \<Rightarrow> string \<Rightarrow> string" where
  "generateJobName w prefix =
     (let timestamp = w_name_time w;
          random = substring 2 8 (w_random36 w)
      in prefix @ ''-'' @ show_int timestamp @ ''-'' @ random)"

definition normalizeAzureLocation :: "string option \<Rightarrow> string" where
  "normalizeAzureLocation location =
     (case location of
        None \<Rightarrow> ''eastus''
      | Some l \<Rightarrow> if l = [] then ''eastus'' else filter (\<lambda>c. \<not> is_space c) (toLowerCase l))"


section \<open>The lifecycle operations (job.js)\<close>

text \<open>
  Each operation returns the events it produced, in order, and its result: \<open>Inl\<close> an
  error thrown to the caller, \<open>Inr\<close> the value returned.

  \<open>createJob\<close> has five parameters. It reads the location of the environment, builds the
  document and submits it.
\<close>

definition createJob ::
  "world \<Rightarrow> string \<Rightarrow> string \<Rightarrow> string \<Rightarrow> string \<Rightarrow> config \<Rightarrow> event list \<times> (error + unit)" where
  "createJob w subscriptionId resourceGroup environmentName jobName cfg =
     (let tr0 = [Info (''Creating job: '' @ jobName),
                 Remote (EnvironmentGet resourceGroup environmentName)];
          location =
            (case w_environment w of
               Inr loc \<Rightarrow> or_default (normalizeAzureLocation loc) ''eastus''
             | Inl e \<Rightarrow> ''eastus'');
          tr1 =
            (case w_environment w of
               Inr loc \<Rightarrow>
                 [Info (''Using location from environment: '' @ show_opt loc @ '' -> '' @ location)]
             | Inl e \<Rightarrow>
                 [Warning (''Could not get environment location, using default: '' @ err_message e)])
      in case buildJobConfig subscriptionId resourceGroup environmentName location cfg of
           Inl e \<Rightarrow> (tr0 @ tr1, Inl e)
         | Inr jobConfig \<Rightarrow>
             (case w_createOrUpdate w of
                Inr u \<Rightarrow>
                  (tr0 @ tr1 @ [Remote (CreateOrUpdate resourceGroup jobName jobConfig),
                               Info (''Job created successfully: '' @ jobName)],
                   Inr ())
              | Inl e \<Rightarrow>
                  (tr0 @ tr1 @ [Remote (CreateOrUpdate resourceGroup jobName jobConfig),
                               ErrorLog ''Azure rejected job create with error:'',
                               ErrorLog (if err_message e \<noteq> [] then err_message e else err_name e)],
                   Inl (Error (''Failed to create job: '' @ err_message e)))))"

definition startJobExecution ::
  "world \<Rightarrow> string \<Rightarrow> string \<Rightarrow> event list \<times> (error + execution)" where
  "startJobExecution w resourceGroup jobName =
     (let tr0 = [Info (''Starting job execution: '' @ jobName),
                 Remote (StartExecution resourceGroup jobName)]
      in case w_start w of
           Inr execution \<Rightarrow>
             (tr0 @ [Info (''Job execution started: '' @ ex_name execution)], Inr execution)
         | Inl e \<Rightarrow> (tr0, Inl (Error (''Failed to start job execution: '' @ err_message e))))"

text \<open>
  The poll loop. \<open>timeout * 1000\<close> and \<open>elapsed > timeoutMs\<close> on a timeout that may be
  \<open>NaN\<close>; a comparison with \<open>NaN\<close> is false.
\<close>

definition timeoutMs :: "jsint \<Rightarrow> jsint" where
  "timeoutMs timeout = (case timeout of NaN \<Rightarrow> NaN | Num t \<Rightarrow> Num (t * 1000))"

definition exceeds :: "int \<Rightarrow> jsint \<Rightarrow> bool" where
  "exceeds elapsed limit = (case limit of NaN \<Rightarrow> False | Num t \<Rightarrow> elapsed > t)"

definition terminal_status :: "string option \<Rightarrow> bool" where
  "terminal_status status = (status = Some ''Succeeded'' \<or> status = Some ''Failed'')"

definition pollInterval :: nat where
  "pollInterval = 10000"

text \<open>
  Iteration \<open>i\<close> of \<open>while (true)\<close>, with the events of the loop so far. The loop need not
  end: the function is partial, and \<open>None\<close> stands for a loop that runs forever.
\<close>

partial_function (option) poll_loop ::
  "world \<Rightarrow> string \<Rightarrow> string \<Rightarrow> string \<Rightarrow> jsint \<Rightarrow> nat \<Rightarrow> event list
     \<Rightarrow> (event list \<times> (error + execution)) option" where
  "poll_loop w resourceGroup jobName executionName timeout i tr =
     (if exceeds (w_poll_now w i - w_poll_startTime w) (timeoutMs timeout)
      then Some (tr, Inl (Error (''Job execution timed out after '' @ show_jsint timeout @ '' seconds'')))
      else
        (case w_jobExecution w i of
           Inl e \<Rightarrow>
             poll_loop w resourceGroup jobName executionName timeout (Suc i)
               (tr @ [Remote (ExecutionGet resourceGroup jobName executionName),
                      Warning (''Error polling job status: '' @ err_message e),
                      Sleep pollInterval])
         | Inr None \<Rightarrow>
             poll_loop w resourceGroup jobName executionName timeout (Suc i)
               (tr @ [Remote (ExecutionGet resourceGroup jobName executionName),
                      Info (''Job status: '' @ show_opt None),
                      Sleep pollInterval])
         | Inr (Some execution) \<Rightarrow>
             (if terminal_status (ex_status execution)
              then Some (tr @ [Remote (ExecutionGet resourceGroup jobName executionName),
                               Info (''Job status: '' @ show_opt (ex_status execution))],
                         Inr execution)
              else poll_loop w resourceGroup jobName executionName timeout (Suc i)
                     (tr @ [Remote (ExecutionGet resourceGroup jobName executionName),
                            Info (''Job status: '' @ show_opt (ex_status execution)),
                            Sleep pollInterval]))))"

definition pollJobExecution ::
  "world \<Rightarrow> string \<Rightarrow> string \<Rightarrow> string \<Rightarrow> jsint
     \<Rightarrow> (event list \<times> (error + execution)) option" where
  "pollJobExecution w resourceGroup jobName executionName timeout =
     poll_loop w resourceGroup jobName executionName timeout 0
       [Info (''Polling for job completion (timeout: '' @ show_jsint timeout @ ''s)'')]"

text \<open>\<open>deleteJob\<close> has three parameters and catches every error of the remote delete.\<close>

definition deleteJob :: "world \<Rightarrow> string \<Rightarrow> string \<Rightarrow> event list" where
  "deleteJob w resourceGroup jobName =
     [Info (''Deleting job: '' @ jobName), Remote (DeleteJob resourceGroup jobName)]
     @ (case w_delete w of
          Inr u \<Rightarrow> [Info (''Job deleted successfully: '' @ jobName)]
        | Inl e \<Rightarrow> [Warning (''Failed to delete job: '' @ err_message e)])"

text \<open>\<open>dumpJobLogs\<close> of utils.js: best effort, it never throws.\<close>

definition dumpJobLogs :: "world \<Rightarrow> string \<Rightarrow> string \<Rightarrow> event list" where
  "dumpJobLogs w workspaceId jobName =
     (if workspaceId = [] \<or> trim workspaceId = []
      then [Info ''No Log Analytics Workspace ID provided, skipping log dump'']
      else
        [Info ''Querying container job logs from Log Analytics...'',
         Remote (LogsQuery workspaceId jobName)]
        @ (case w_logs w of
             Inl e \<Rightarrow>
               [Warning (''Failed to retrieve logs from Log Analytics: '' @ err_message e),
                Info ''Note: Logs can take several minutes to appear in Log Analytics after job execution'']
           | Inr result \<Rightarrow>
               (case qr_tables result of
                  Some (table # others) \<Rightarrow>
                    (if qr_status result = ''Success''
                     then (if table = []
                           then [Info ''No logs found for this job. Logs may take a few minutes to appear in Log Analytics.'']
                           else [Info ([CHR 0x0A] @ ''========== Container Job Logs (''
                                        @ decimal (length table) @ '' entries) =========='')]
                                @ map (\<lambda>(timestamp, logMessage).
                                         Info (''['' @ timestamp @ ''] '' @ logMessage)) table
                                @ [Info (''========== End of Logs =========='' @ [CHR 0x0A])])
                     else if qr_status result = ''PartialError''
                     then Warning ''Partial error retrieving logs:''
                          # map (\<lambda>e. Warning (err_message e)) (qr_partialError result)
                     else [Warning ''No logs returned from query''])
                | _ \<Rightarrow>
                    (if qr_status result = ''PartialError''
                     then Warning ''Partial error retrieving logs:''
                          # map (\<lambda>e. Warning (err_message e)) (qr_partialError result)
                     else [Warning ''No logs returned from query'']))))"

section \<open>The orchestrator (main.js)\<close>

definition join_sp :: "string list \<Rightarrow> string" where
  "join_sp xs = (case xs of [] \<Rightarrow> [] | y # ys \<Rightarrow> foldl (\<lambda>acc x. acc @ '' '' @ x) y ys)"

text \<open>The lines \<open>run\<close> logs before it authenticates.\<close>

definition config_banner :: "inputs \<Rightarrow> string \<Rightarrow> event list" where
  "config_banner inp jobName =
     (let runType =
            (if in_onlyDeleteJob inp then ''Delete a job''
             else if in_cronSchedule inp \<noteq> []
             then ''Scheduled execution (cron: '' @ in_cronSchedule inp @ '')''
             else if in_manualExecution inp then ''Manual execution (no automatic start)''
             else ''One off execution'')
      in [Info ''=== Azure Container App Job Configuration ==='',
          Info (''Subscription: '' @ in_subscriptionId inp),
          Info (''Resource Group: '' @ in_resourceGroup inp),
          Info (''Environment: '' @ in_environmentName inp),
          Info (''Job Name: '' @ jobName),
          Info (''Image: '' @ in_image inp),
          Info (''Command: '' @ (case in_command inp of None \<Rightarrow> ''default'' | Some c \<Rightarrow> join_sp c)),
          Info (''Timeout: '' @ show_jsint (in_timeout inp) @ ''s''),
          Info (''Run type: '' @ runType @ '' '' @ (if in_dryRun inp then ''[Dry Run]'' else [])),
          Info ''Authenticating with Azure...''])"

definition config_of_inputs :: "inputs \<Rightarrow> config" where
  "config_of_inputs inp =
     \<lparr>cfg_image = in_image inp, cfg_command = in_command inp,
      cfg_userManagedIdentity = in_userManagedIdentity inp,
      cfg_environmentVariables = in_environmentVariables inp,
      cfg_secrets = in_secrets inp, cfg_cpu = in_cpu inp, cfg_memory = in_memory inp,
      cfg_registryServer = in_registryServer inp,
      cfg_registryUsername = in_registryUsername inp,
      cfg_registryPassword = in_registryPassword inp,
      cfg_cronSchedule = in_cronSchedule inp\<rparr>"

text \<open>
  What \<open>run\<close> reads of the final execution: \<open>properties?.status\<close> and
  \<open>properties?.template?.containers?.[0]?.exitCode || 0\<close>.
\<close>

definition final_status :: "execution \<Rightarrow> string option" where
  "final_status finalExecution =
     (case ex_properties finalExecution of None \<Rightarrow> None | Some p \<Rightarrow> pr_status p)"

definition final_exitCode :: "execution \<Rightarrow> int" where
  "final_exitCode finalExecution =
     (case ex_properties finalExecution of
        None \<Rightarrow> 0
      | Some p \<Rightarrow> (case pr_exitCode p of None \<Rightarrow> 0 | Some c \<Rightarrow> c))"

text \<open>
  The body of the \<open>try\<close> block from the construction of the client on (lines 71 to 131
  of main.js). \<open>run\<close> passes \<open>dryRun\<close> as a fourth argument to \<open>deleteJob\<close> and as a sixth
  to \<open>createJob\<close>; neither function has such a parameter, so the argument is dropped.
\<close>

definition run_body :: "world \<Rightarrow> inputs \<Rightarrow> string \<Rightarrow> (event list \<times> (error + unit)) option" where
  "run_body w inp jobName =
     (let resourceGroup = in_resourceGroup inp in
      if in_onlyDeleteJob inp then Some (deleteJob w resourceGroup jobName, Inr ())
      else
        (case createJob w (in_subscriptionId inp) resourceGroup (in_environmentName inp) jobName
                (config_of_inputs inp) of
           (tr1, Inl e) \<Rightarrow> Some (tr1, Inl e)
         | (tr1, Inr u) \<Rightarrow>
             (let tr2 = tr1 @ [SetOutput ''job-name'' jobName] in
              if in_cronSchedule inp \<noteq> [] \<or> in_manualExecution inp
              then Some (tr2 @ [Info ''Job created successfully.''], Inr ())
              else if in_dryRun inp
              then Some (tr2 @ [Info ''Dry run mode enabled, skipping job execution''], Inr ())
              else
                (case startJobExecution w resourceGroup jobName of
                   (tr3, Inl e) \<Rightarrow> Some (tr2 @ tr3, Inl e)
                 | (tr3, Inr execution) \<Rightarrow>
                     (let executionName = ex_name execution;
                          tr4 = tr2 @ tr3 @ [SetOutput ''execution-name'' executionName]
                      in case pollJobExecution w resourceGroup jobName executionName
                                (in_timeout inp) of
                           None \<Rightarrow> None
                         | Some (tr5, Inl e) \<Rightarrow> Some (tr4 @ tr5, Inl e)
                         | Some (tr5, Inr finalExecution) \<Rightarrow>
                             (let status = final_status finalExecution;
                                  exitCode = final_exitCode finalExecution;
                                  tr6 = tr4 @ tr5
                                    @ [Info ''=== Job Completed ==='',
                                       Info (''Status: '' @ show_opt status),
                                       Info (''Exit Code: '' @ show_int exitCode)]
                                    @ dumpJobLogs w (in_logAnalyticsWorkspaceId inp) jobName
                                    @ deleteJob w resourceGroup jobName
                              in if status = Some ''Failed'' \<or> exitCode \<noteq> 0
                                 then Some (tr6 @ [SetFailed (''Job execution failed with exit code: ''
                                                      @ show_int exitCode)], Inr ())
                                 else Some (tr6, Inr ())))))))"

text \<open>The variables declared before the \<open>try\<close> and read in the \<open>catch\<close>; \<open>None\<close> is \<open>null\<close>.\<close>

record vars =
  v_client :: bool
  v_jobName :: "string option"
  v_resourceGroup :: "string option"
  v_cronSchedule :: "string option"

definition truthy_str :: "string option \<Rightarrow> bool" where
  "truthy_str s = (case s of None \<Rightarrow> False | Some t \<Rightarrow> t \<noteq> [])"

text \<open>
  The \<open>catch\<close> block. \<open>deleteJob\<close> does not throw, so the inner \<open>catch\<close> around the cleanup
  is never entered.
\<close>

definition catch_block :: "world \<Rightarrow> vars \<Rightarrow> error \<Rightarrow> event list" where
  "catch_block w vs e =
     [ErrorLog (''Error: '' @ err_message e), ErrorStack e]
     @ (if v_client vs \<and> truthy_str (v_resourceGroup vs) \<and> truthy_str (v_jobName vs)
           \<and> \<not> truthy_str (v_cronSchedule vs)
        then deleteJob w (show_opt (v_resourceGroup vs)) (show_opt (v_jobName vs))
        else [])
     @ [SetFailed (err_message e)]"

definition resolve_jobName :: "world \<Rightarrow> inputs \<Rightarrow> string" where
  "resolve_jobName w inp =
     (if in_jobName inp \<noteq> [] then in_jobName inp else generateJobName w ''gh-job'')"

text \<open>\<open>run\<close>: the events of a whole run, or \<open>None\<close> when the poll loop never ends.\<close>

definition run :: "world \<Rightarrow> event list option" where
  "run w =
     (case getInputs w of
        Inl e \<Rightarrow>
          Some (catch_block w \<lparr>v_client = False, v_jobName = None, v_resourceGroup = None,
                                v_cronSchedule = None\<rparr> e)
      | Inr inp \<Rightarrow>
          (let jobName = resolve_jobName w inp;
               vs = \<lparr>v_client = True, v_jobName = Some jobName,
                     v_resourceGroup = Some (in_resourceGroup inp),
                     v_cronSchedule = Some (in_cronSchedule inp)\<rparr>;
               tr0 = config_banner inp jobName
           in case run_body w inp jobName of
                None \<Rightarrow> None
              | Some (tr, Inr u) \<Rightarrow> Some (tr0 @ tr)
              | Some (tr, Inl e) \<Rightarrow> Some (tr0 @ tr @ catch_block w vs e)))"

text \<open>The failure reasons a run has set, in order.\<close>

definition failures :: "event list \<Rightarrow> string list" where
  "failures tr = concat (map (\<lambda>ev. case ev of SetFailed m \<Rightarrow> [m] | _ \<Rightarrow> []) tr)"

section \<open>Vocabulary for the properties\<close>

text \<open>
  The poll loop at iteration \<open>i\<close>: whether the elapsed time read at the top of the
  iteration exceeds the timeout, whether the status fetched in it is terminal, and the
  events of an iteration that goes on to the next one.
\<close>

definition timed_out_at :: "world \<Rightarrow> jsint \<Rightarrow> nat \<Rightarrow> bool" where
  "timed_out_at w timeout i = exceeds (w_poll_now w i - w_poll_startTime w) (timeoutMs timeout)"

definition terminal_at :: "world \<Rightarrow> nat \<Rightarrow> bool" where
  "terminal_at w i =
     (case w_jobExecution w i of
        Inr (Some execution) \<Rightarrow> terminal_status (ex_status execution)
      | _ \<Rightarrow> False)"

definition iteration_events :: "world \<Rightarrow> string \<Rightarrow> string \<Rightarrow> string \<Rightarrow> nat \<Rightarrow> event list" where
  "iteration_events w resourceGroup jobName executionName i =
     [Remote (ExecutionGet resourceGroup jobName executionName),
      (case w_jobExecution w i of
         Inl e \<Rightarrow> Warning (''Error polling job status: '' @ err_message e)
       | Inr None \<Rightarrow> Info (''Job status: '' @ show_opt None)
       | Inr (Some execution) \<Rightarrow> Info (''Job status: '' @ show_opt (ex_status execution))),
      Sleep pollInterval]"

definition timeout_error :: "jsint \<Rightarrow> error" where
  "timeout_error timeout = Error (''Job execution timed out after '' @ show_jsint timeout @ '' seconds'')"


text \<open>A world for the examples: the inputs are given by a list of pairs.\<close>

definition lookup_input :: "(string \<times> string) list \<Rightarrow> string \<Rightarrow> string" where
  "lookup_input kvs name = (case map_of kvs name of None \<Rightarrow> [] | Some v \<Rightarrow> v)"

definition running_execution :: execution where
  "running_execution = \<lparr>ex_name = ''exec-1'', ex_status = Some ''Running'', ex_properties = None\<rparr>"

definition example_world :: "(string \<times> string) list \<Rightarrow> world" where
  "example_world kvs =
     \<lparr>w_core_getInput = lookup_input kvs,
      w_process_env = (\<lambda>name. None),
      w_JSON_parse = (\<lambda>s. Inl (Error ''Unexpected token'')),
      w_name_time = 1700000000000,
      w_random36 = ''0.4fzyo82mvyr'',
      w_environment = Inr (Some ''East US''),
      w_createOrUpdate = Inr (),
      w_start = Inr running_execution,
      w_poll_startTime = 0,
      w_poll_now = (\<lambda>i. 10000 * int i),
      w_jobExecution =
        (\<lambda>i. if i = 0 then Inl (Error ''socket hang up'')
             else if i = 1 then Inr (Some running_execution)
             else Inr (Some (running_execution\<lparr>ex_status := Some ''Succeeded''\<rparr>))),
      w_delete = Inr (),
      w_logs = Inl (Error ''no workspace'')\<rparr>"

text \<open>A configuration with nothing optional set, for the examples.\<close>

definition example_config :: config where
  "example_config = \<lparr>cfg_image = ''img'', cfg_command = None, cfg_userManagedIdentity = [],
     cfg_environmentVariables = JObj [], cfg_secrets = JObj [],
     cfg_cpu = ''0.5'', cfg_memory = ''1Gi'', cfg_registryServer = [],
     cfg_registryUsername = [], cfg_registryPassword = [], cfg_cronSchedule = []\<rparr>"

text \<open>The inputs of a plain run, and variations of the example world.\<close>

definition standard_inputs :: "(string \<times> string) list" where
  "standard_inputs =
     [(''subscription-id'', ''sub''), (''resource-group'', ''rg''),
      (''environment-name'', ''env''), (''image'', ''img''), (''job-name'', ''job'')]"

definition no_image_inputs :: "(string \<times> string) list" where
  "no_image_inputs =
     [(''subscription-id'', ''sub''), (''resource-group'', ''rg''),
      (''environment-name'', ''env''), (''job-name'', ''job'')]"

text \<open>The provider rejects the job, and the delete fails too.\<close>

definition create_fails :: "world \<Rightarrow> world" where
  "create_fails w = w\<lparr>w_createOrUpdate := Inl (Error ''quota exceeded''),
                        w_delete := Inl (Error ''not found'')\<rparr>"

text \<open>Every status fetch answers with the same execution.\<close>

definition finishing_with :: "execution \<Rightarrow> world \<Rightarrow> world" where
  "finishing_with execution w = w\<lparr>w_jobExecution := (\<lambda>i. Inr (Some execution))\<rparr>"

definition failed_execution :: execution where
  "failed_execution = \<lparr>ex_name = ''exec-1'', ex_status = Some ''Failed'', ex_properties = None\<rparr>"

definition succeeded_execution :: execution where
  "succeeded_execution =
     \<lparr>ex_name = ''exec-1'', ex_status = Some ''Succeeded'', ex_properties = None\<rparr>"

text \<open>The events of \<open>deleteJob\<close>, spelled out.\<close>

definition cleanup_events :: "world \<Rightarrow> string \<Rightarrow> string \<Rightarrow> event list" where
  "cleanup_events w resourceGroup jobName =
     [Info (''Deleting job: '' @ jobName),
      Remote (DeleteJob resourceGroup jobName),
      (case w_delete w of
         Inr u \<Rightarrow> Info (''Job deleted successfully: '' @ jobName)
       | Inl e \<Rightarrow> Warning (''Failed to delete job: '' @ err_message e))]"

text \<open>An event that sets no failure and no output and deletes nothing.\<close>

definition quiet :: "event \<Rightarrow> bool" where
  "quiet ev = ((\<forall>m. ev \<noteq> SetFailed m) \<and> (\<forall>rg j. ev \<noteq> Remote (DeleteJob rg j))
                \<and> (\<forall>k v. ev \<noteq> SetOutput k v))"

text \<open>
  The pattern \<open>[a-z0-9]{6}\<close>, and the number a base-36 numeral \<open>0.d\<^sub>1d\<^sub>2\<dots>\<close> denotes.
\<close>

definition base36_digits :: string where
  "base36_digits = ''0123456789abcdefghijklmnopqrstuvwxyz''"

definition six_base36 :: "string \<Rightarrow> bool" where
  "six_base36 s = (length s = 6 \<and> set s \<subseteq> set base36_digits)"

definition digit36 :: "char \<Rightarrow> nat" where
  "digit36 c = length (takeWhile (\<lambda>d. d \<noteq> c) base36_digits)"

fun frac36 :: "string \<Rightarrow> rat" where
  "frac36 [] = 0"
| "frac36 (c # cs) = (of_nat (digit36 c) + frac36 cs) / 36"

definition radix36_value :: "string \<Rightarrow> rat" where
  "radix36_value s = frac36 (drop 2 s)"

section \<open>Properties of the assembled document\<close>

lemmas str_eval = normalize_secret_name_def replaceAll_def toLowerCase_def lower_char_def
  upper_letters_def lower_letters_def toUpperCase_def upper_char_def

lemma secrets_loop_eq:
  "secrets_loop ident secs (sa, ev) =
     (sa @ map (\<lambda>(k, v). KeyVaultSecret (normalize_secret_name k) v ident)
             (filter (\<lambda>(k, v). truthy v) secs),
      ev @ map (\<lambda>(k, v). EnvSecretRef k (normalize_secret_name k))
             (filter (\<lambda>(k, v). truthy v) secs))"
  by (induction secs arbitrary: sa ev) (auto simp: Let_def)

lemma object_entries_total:
  "v \<noteq> JNull \<Longrightarrow> \<exists>kvs. object_entries v = Inr kvs"
  by (cases v) (simp_all add: object_entries_def)

lemma object_entries_JObj [simp]: "object_entries (JObj kvs) = Inr kvs"
  by (simp add: object_entries_def)

lemma buildJobConfig_total:
  assumes "cfg_environmentVariables cfg \<noteq> JNull" and "cfg_secrets cfg \<noteq> JNull"
  shows "\<exists>evs secs. object_entries (cfg_environmentVariables cfg) = Inr evs
           \<and> object_entries (cfg_secrets cfg) = Inr secs
           \<and> buildJobConfig sub rg en loc cfg = Inr (assemble sub rg en loc cfg evs secs)"
proof -
  obtain evs where e: "object_entries (cfg_environmentVariables cfg) = Inr evs"
    using object_entries_total [OF assms(1)] by blast
  obtain secs where s: "object_entries (cfg_secrets cfg) = Inr secs"
    using object_entries_total [OF assms(2)] by blast
  show ?thesis using e s by (simp add: buildJobConfig_def)
qed

lemma assemble_secrets:
  "doc_secrets (assemble sub rg en loc cfg evs secs) =
     map (\<lambda>(k, v). KeyVaultSecret (normalize_secret_name k) v (cfg_userManagedIdentity cfg))
         (filter (\<lambda>(k, v). truthy v) secs)
     @ (if registry_given cfg
        then [ValueSecret ''registry-password'' (cfg_registryPassword cfg)] else [])"
  by (simp add: doc_secrets_def assemble_def secrets_loop_eq Let_def)

lemma assemble_env:
  "doc_env (assemble sub rg en loc cfg evs secs) =
     env_of_variables evs
     @ map (\<lambda>(k, v). EnvSecretRef k (normalize_secret_name k))
           (filter (\<lambda>(k, v). truthy v) secs)"
  by (simp add: doc_env_def assemble_def secrets_loop_eq Let_def)

lemma assemble_registries:
  "doc_registries (assemble sub rg en loc cfg evs secs) =
     (if registry_given cfg
      then [\<lparr>reg_server = cfg_registryServer cfg, reg_username = cfg_registryUsername cfg,
             reg_passwordSecretRef = ''registry-password''\<rparr>]
      else [])"
  by (simp add: doc_registries_def assemble_def secrets_loop_eq Let_def)

text \<open>
  Claim C4, as amended. The claim says that the secret names of the document are always
  pairwise distinct. The assembler does not check this: it pushes one descriptor per
  non-empty entry, named by the normalized key, and then the registry password. So the
  names of the document are the normalized keys of the entries with a truthy value, in
  the order of the mapping, followed by \<open>registry-password\<close> when the registry triple is
  complete; they are pairwise distinct exactly when those normalized keys are pairwise
  distinct and, with a registry, none of them is \<open>registry-password\<close>.
\<close>

theorem secret_names_distinct_iff:
  assumes "cfg_environmentVariables cfg \<noteq> JNull" and "cfg_secrets cfg = JObj secs"
  shows "\<exists>doc. buildJobConfig sub rg en loc cfg = Inr doc
     \<and> map secret_name (doc_secrets doc) =
          map (\<lambda>(k, v). normalize_secret_name k) (filter (\<lambda>(k, v). truthy v) secs)
          @ (if registry_given cfg then [''registry-password''] else [])
     \<and> (distinct (map secret_name (doc_secrets doc)) \<longleftrightarrow>
          distinct (map (\<lambda>(k, v). normalize_secret_name k) (filter (\<lambda>(k, v). truthy v) secs))
          \<and> (registry_given cfg \<longrightarrow>
                ''registry-password'' \<notin> (\<lambda>(k, v). normalize_secret_name k) ` set (filter (\<lambda>(k, v). truthy v) secs)))"
proof -
  from assms have nn: "cfg_secrets cfg \<noteq> JNull" by simp
  obtain evs where b: "buildJobConfig sub rg en loc cfg = Inr (assemble sub rg en loc cfg evs secs)"
    using buildJobConfig_total [OF assms(1) nn, of sub rg en loc] assms(2) by auto
  have names: "map secret_name (doc_secrets (assemble sub rg en loc cfg evs secs)) =
          map (\<lambda>(k, v). normalize_secret_name k) (filter (\<lambda>(k, v). truthy v) secs)
          @ (if registry_given cfg then [''registry-password''] else [])"
    by (simp add: assemble_secrets comp_def case_prod_unfold)
  show ?thesis
    unfolding b using names by auto
qed

theorem secret_names_distinct_witness:
  "\<exists>doc. buildJobConfig ''s'' ''g'' ''e'' ''eastus''
            (example_config\<lparr>cfg_secrets := JObj [(''API_KEY'', JStr ''u1''), (''DB_PASS'', JStr ''u2'')]\<rparr>) = Inr doc
     \<and> map secret_name (doc_secrets doc) = [''api-key'', ''db-pass'']
     \<and> distinct (map secret_name (doc_secrets doc))"
  using secret_names_distinct_iff [of "example_config\<lparr>cfg_secrets := JObj [(''API_KEY'', JStr ''u1''), (''DB_PASS'', JStr ''u2'')]\<rparr>"
     "[(''API_KEY'', JStr ''u1''), (''DB_PASS'', JStr ''u2'')]" "''s''" "''g''" "''e''" "''eastus''"]
  by (simp add: example_config_def registry_given_def str_eval)

text \<open>
  The claim as stated fails for the two keys \<open>FOO-BAR\<close> and \<open>FOO_BAR\<close>: both descriptors
  are named \<open>foo-bar\<close>.
\<close>

theorem secret_names_collide:
  "buildJobConfig ''s'' ''g'' ''e'' ''eastus''
     (example_config\<lparr>cfg_secrets := JObj [(''FOO-BAR'', JStr ''u1''), (''FOO_BAR'', JStr ''u2'')]\<rparr>)
   = Inr (assemble ''s'' ''g'' ''e'' ''eastus''
            (example_config\<lparr>cfg_secrets := JObj [(''FOO-BAR'', JStr ''u1''), (''FOO_BAR'', JStr ''u2'')]\<rparr>)
            [] [(''FOO-BAR'', JStr ''u1''), (''FOO_BAR'', JStr ''u2'')])
   \<and> map secret_name (doc_secrets (assemble ''s'' ''g'' ''e'' ''eastus''
            (example_config\<lparr>cfg_secrets := JObj [(''FOO-BAR'', JStr ''u1''), (''FOO_BAR'', JStr ''u2'')]\<rparr>)
            [] [(''FOO-BAR'', JStr ''u1''), (''FOO_BAR'', JStr ''u2'')]))
       = [''foo-bar'', ''foo-bar'']
   \<and> \<not> distinct (map secret_name (doc_secrets (assemble ''s'' ''g'' ''e'' ''eastus''
            (example_config\<lparr>cfg_secrets := JObj [(''FOO-BAR'', JStr ''u1''), (''FOO_BAR'', JStr ''u2'')]\<rparr>)
            [] [(''FOO-BAR'', JStr ''u1''), (''FOO_BAR'', JStr ''u2'')])))"
  by (simp add: buildJobConfig_def example_config_def assemble_secrets registry_given_def str_eval)

lemma assemble_password_irrelevant:
  assumes "cfg_registryServer cfg = [] \<or> cfg_registryUsername cfg = []"
  shows "assemble sub rg en loc (cfg\<lparr>cfg_registryPassword := p\<rparr>) evs secs
           = assemble sub rg en loc cfg evs secs"
proof -
  have 1: "\<not> registry_given (cfg\<lparr>cfg_registryPassword := p\<rparr>)"
    using assms by (auto simp: registry_given_def)
  have 2: "\<not> registry_given cfg"
    using assms by (auto simp: registry_given_def)
  show ?thesis
    by (simp add: assemble_def 1 2 secrets_loop_eq Let_def)
qed

lemma no_value_secret_in_key_vault_items:
  "filter is_value_secret
     (map (\<lambda>(k, v). KeyVaultSecret (normalize_secret_name k) v i) xs) = []"
  by (induction xs) auto

text \<open>
  Claim C5. Whenever the assembler returns a document (it does unless one of the two
  mappings is \<open>null\<close>), the registries list is non-empty exactly when server, username
  and password are all non-empty. Then it is the single descriptor with
  \<open>passwordSecretRef = registry-password\<close>, and the only secret of the document that
  carries a literal value is \<open>{name: registry-password, value: password}\<close>. Otherwise the
  list is empty, no secret of the document carries a literal value, and, when server or
  username is missing, the document is the same whatever the password is: nothing of the
  password reaches it.
\<close>

theorem registry_block_iff_complete:
  assumes "cfg_environmentVariables cfg \<noteq> JNull" and "cfg_secrets cfg \<noteq> JNull"
  shows "\<exists>doc. buildJobConfig sub rg en loc cfg = Inr doc
     \<and> (doc_registries doc \<noteq> [] \<longleftrightarrow>
          cfg_registryServer cfg \<noteq> [] \<and> cfg_registryUsername cfg \<noteq> [] \<and> cfg_registryPassword cfg \<noteq> [])
     \<and> (doc_registries doc \<noteq> [] \<longrightarrow>
          doc_registries doc =
            [\<lparr>reg_server = cfg_registryServer cfg, reg_username = cfg_registryUsername cfg,
              reg_passwordSecretRef = ''registry-password''\<rparr>]
          \<and> filter is_value_secret (doc_secrets doc) =
              [ValueSecret ''registry-password'' (cfg_registryPassword cfg)])
     \<and> (doc_registries doc = [] \<longrightarrow>
          filter is_value_secret (doc_secrets doc) = []
          \<and> (\<forall>p. cfg_registryServer cfg = [] \<or> cfg_registryUsername cfg = [] \<longrightarrow> 
                buildJobConfig sub rg en loc (cfg\<lparr>cfg_registryPassword := p\<rparr>) = Inr doc))"
proof -
  obtain evs secs where
    e: "object_entries (cfg_environmentVariables cfg) = Inr evs" and
    s: "object_entries (cfg_secrets cfg) = Inr secs" and
    b: "buildJobConfig sub rg en loc cfg = Inr (assemble sub rg en loc cfg evs secs)"
    using buildJobConfig_total [OF assms, of sub rg en loc] by blast
  let ?doc = "assemble sub rg en loc cfg evs secs"
  have r1: "doc_registries ?doc \<noteq> [] \<longleftrightarrow> registry_given cfg"
    by (simp add: assemble_registries)
  have r2: "registry_given cfg \<Longrightarrow> filter is_value_secret (doc_secrets ?doc) =
              [ValueSecret ''registry-password'' (cfg_registryPassword cfg)]"
    by (simp add: assemble_secrets no_value_secret_in_key_vault_items)
  have r3: "\<not> registry_given cfg \<Longrightarrow> filter is_value_secret (doc_secrets ?doc) = []"
    by (simp add: assemble_secrets no_value_secret_in_key_vault_items)
  have r4: "buildJobConfig sub rg en loc (cfg\<lparr>cfg_registryPassword := p\<rparr>) = Inr ?doc"
    if "cfg_registryServer cfg = [] \<or> cfg_registryUsername cfg = []" for p
    using e s assemble_password_irrelevant [OF that]
    by (simp add: buildJobConfig_def)
  have r5: "registry_given cfg \<Longrightarrow> doc_registries ?doc =
            [\<lparr>reg_server = cfg_registryServer cfg, reg_username = cfg_registryUsername cfg,
              reg_passwordSecretRef = ''registry-password''\<rparr>]"
    by (simp add: assemble_registries)
  have g: "registry_given cfg \<longleftrightarrow>
     cfg_registryServer cfg \<noteq> [] \<and> cfg_registryUsername cfg \<noteq> [] \<and> cfg_registryPassword cfg \<noteq> []"
    by (simp add: registry_given_def)
  show ?thesis
  proof (intro exI conjI)
    show "buildJobConfig sub rg en loc cfg = Inr ?doc" by (rule b)
    show "doc_registries ?doc \<noteq> [] \<longleftrightarrow>
          cfg_registryServer cfg \<noteq> [] \<and> cfg_registryUsername cfg \<noteq> [] \<and> cfg_registryPassword cfg \<noteq> []"
      using r1 g by simp
    show "doc_registries ?doc \<noteq> [] \<longrightarrow>
          doc_registries ?doc =
            [\<lparr>reg_server = cfg_registryServer cfg, reg_username = cfg_registryUsername cfg,
              reg_passwordSecretRef = ''registry-password''\<rparr>]
          \<and> filter is_value_secret (doc_secrets ?doc) =
              [ValueSecret ''registry-password'' (cfg_registryPassword cfg)]"
      using r1 r2 r5 by blast
    show "doc_registries ?doc = [] \<longrightarrow>
          filter is_value_secret (doc_secrets ?doc) = []
          \<and> (\<forall>p. cfg_registryServer cfg = [] \<or> cfg_registryUsername cfg = [] \<longrightarrow> 
                buildJobConfig sub rg en loc (cfg\<lparr>cfg_registryPassword := p\<rparr>) = Inr ?doc)"
      using r1 r3 r4 by blast
  qed
qed

theorem registry_block_witness:
  "(\<exists>doc. buildJobConfig ''s'' ''g'' ''e'' ''eastus''
            (example_config\<lparr>cfg_registryServer := ''ghcr.io'', cfg_registryUsername := ''bob'',
                  cfg_registryPassword := ''pw''\<rparr>) = Inr doc
     \<and> doc_registries doc =
            [\<lparr>reg_server = ''ghcr.io'', reg_username = ''bob'',
              reg_passwordSecretRef = ''registry-password''\<rparr>]
     \<and> filter is_value_secret (doc_secrets doc) = [ValueSecret ''registry-password'' ''pw''])
   \<and> (\<exists>doc. buildJobConfig ''s'' ''g'' ''e'' ''eastus''
            (example_config\<lparr>cfg_registryUsername := ''bob'', cfg_registryPassword := ''pw''\<rparr>) = Inr doc
     \<and> doc_registries doc = []
     \<and> filter is_value_secret (doc_secrets doc) = []
     \<and> buildJobConfig ''s'' ''g'' ''e'' ''eastus''
            (example_config\<lparr>cfg_registryUsername := ''bob'', cfg_registryPassword := ''other''\<rparr>) = Inr doc)"
proof
  show "\<exists>doc. buildJobConfig ''s'' ''g'' ''e'' ''eastus''
            (example_config\<lparr>cfg_registryServer := ''ghcr.io'', cfg_registryUsername := ''bob'',
                  cfg_registryPassword := ''pw''\<rparr>) = Inr doc
     \<and> doc_registries doc =
            [\<lparr>reg_server = ''ghcr.io'', reg_username = ''bob'',
              reg_passwordSecretRef = ''registry-password''\<rparr>]
     \<and> filter is_value_secret (doc_secrets doc) = [ValueSecret ''registry-password'' ''pw'']"
    using registry_block_iff_complete [of "example_config\<lparr>cfg_registryServer := ''ghcr.io'',
                  cfg_registryUsername := ''bob'', cfg_registryPassword := ''pw''\<rparr>"
                  "''s''" "''g''" "''e''" "''eastus''"]
    by (simp add: example_config_def) blast
  obtain doc where d: "buildJobConfig ''s'' ''g'' ''e'' ''eastus''
            (example_config\<lparr>cfg_registryUsername := ''bob'', cfg_registryPassword := ''pw''\<rparr>) = Inr doc"
     and r: "doc_registries doc = []"
     and v: "filter is_value_secret (doc_secrets doc) = []"
     and n: "\<And>p. buildJobConfig ''s'' ''g'' ''e'' ''eastus''
            (example_config\<lparr>cfg_registryUsername := ''bob'', cfg_registryPassword := p\<rparr>) = Inr doc"
    using registry_block_iff_complete [of "example_config\<lparr>cfg_registryUsername := ''bob'',
                  cfg_registryPassword := ''pw''\<rparr>" "''s''" "''g''" "''e''" "''eastus''"]
    by (simp add: example_config_def) blast
  show "\<exists>doc. buildJobConfig ''s'' ''g'' ''e'' ''eastus''
            (example_config\<lparr>cfg_registryUsername := ''bob'', cfg_registryPassword := ''pw''\<rparr>) = Inr doc
     \<and> doc_registries doc = []
     \<and> filter is_value_secret (doc_secrets doc) = []
     \<and> buildJobConfig ''s'' ''g'' ''e'' ''eastus''
            (example_config\<lparr>cfg_registryUsername := ''bob'', cfg_registryPassword := ''other''\<rparr>) = Inr doc"
    using d r v n [of "''other''"] by blast
qed


lemma assemble_ignores_secrets_field:
  "assemble sub rg en loc (cfg\<lparr>cfg_secrets := x\<rparr>) evs secs = assemble sub rg en loc cfg evs secs"
  by (simp add: assemble_def registry_given_def)

lemma assemble_cong_live:
  assumes "filter (\<lambda>(k, v). truthy v) secs' = filter (\<lambda>(k, v). truthy v) secs"
  shows "assemble sub rg en loc cfg evs secs' = assemble sub rg en loc cfg evs secs"
  unfolding assemble_def secrets_loop_eq using assms by simp

text \<open>
  Claim C7. An entry of the secrets mapping whose value is falsy (the empty string,
  \<open>0\<close>, \<open>false\<close>, \<open>null\<close>) is skipped: the assembler returns a document, every key-vault
  descriptor of the document comes from another entry, one with a truthy value, the
  environment list has no secret reference under the key of the entry, and the document
  is the one built from the mapping without the entry.
\<close>

theorem falsy_secret_skipped:
  assumes "cfg_environmentVariables cfg \<noteq> JNull" and "cfg_secrets cfg = JObj secs"
    and "distinct (map fst secs)" and "(key, v) \<in> set secs" and "\<not> truthy v"
  shows "\<exists>doc. buildJobConfig sub rg en loc cfg = Inr doc
     \<and> (\<forall>n u i. KeyVaultSecret n u i \<in> set (doc_secrets doc) \<longrightarrow>
            truthy u \<and> (\<exists>k. k \<noteq> key \<and> (k, u) \<in> set secs \<and> n = normalize_secret_name k))
     \<and> filter (is_secret_ref_for key) (doc_env doc) = []
     \<and> buildJobConfig sub rg en loc
           (cfg\<lparr>cfg_secrets := JObj (filter (\<lambda>kv. kv \<noteq> (key, v)) secs)\<rparr>) = Inr doc"
proof -
  from assms have nn: "cfg_secrets cfg \<noteq> JNull" by simp
  obtain evs where e: "object_entries (cfg_environmentVariables cfg) = Inr evs"
    and b: "buildJobConfig sub rg en loc cfg = Inr (assemble sub rg en loc cfg evs secs)"
    using buildJobConfig_total [OF assms(1) nn, of sub rg en loc] assms(2) by auto
  let ?doc = "assemble sub rg en loc cfg evs secs"
  let ?live = "filter (\<lambda>(k, v). truthy v) secs"
  have other: "k \<noteq> key" if "(k, u) \<in> set secs" "truthy u" for k u
  proof
    assume "k = key"
    with that(1) assms(3,4) have "u = v" by (metis eq_key_imp_eq_value)
    with that(2) assms(5) show False by simp
  qed
  have p1: "truthy u \<and> (\<exists>k. k \<noteq> key \<and> (k, u) \<in> set secs \<and> n = normalize_secret_name k)"
    if "KeyVaultSecret n u i \<in> set (doc_secrets ?doc)" for n u i
    using that other by (auto simp: assemble_secrets split: if_splits)
  have p2: "filter (is_secret_ref_for key) (doc_env ?doc) = []"
    using other by (auto simp: assemble_env env_of_variables_def filter_empty_conv)
  have same: "filter (\<lambda>(k, v). truthy v) (filter (\<lambda>kv. kv \<noteq> (key, v)) secs) = ?live"
    using assms(5) by (induction secs) auto
  have p3: "buildJobConfig sub rg en loc
           (cfg\<lparr>cfg_secrets := JObj (filter (\<lambda>kv. kv \<noteq> (key, v)) secs)\<rparr>) = Inr ?doc"
    using e assemble_cong_live [OF same, of sub rg en loc cfg evs]
    by (simp add: buildJobConfig_def assemble_ignores_secrets_field)
  show ?thesis
    unfolding b using p1 p2 p3 by blast
qed

theorem falsy_secret_skipped_witness:
  "\<exists>doc. buildJobConfig ''s'' ''g'' ''e'' ''eastus''
            (example_config\<lparr>cfg_secrets :=
               JObj [(''EMPTY'', JStr []), (''API_KEY'', JStr ''https://v/k'')]\<rparr>) = Inr doc
     \<and> filter (is_secret_ref_for ''EMPTY'') (doc_env doc) = []
     \<and> buildJobConfig ''s'' ''g'' ''e'' ''eastus''
            (example_config\<lparr>cfg_secrets := JObj [(''API_KEY'', JStr ''https://v/k'')]\<rparr>) = Inr doc"
  using falsy_secret_skipped [of "example_config\<lparr>cfg_secrets :=
               JObj [(''EMPTY'', JStr []), (''API_KEY'', JStr ''https://v/k'')]\<rparr>"
     "[(''EMPTY'', JStr []), (''API_KEY'', JStr ''https://v/k'')]" "''EMPTY''" "JStr []"
     "''s''" "''g''" "''e''" "''eastus''"]
  by (simp add: example_config_def) blast

text \<open>
  The entry of the environment list that belongs to a secret with a truthy value, in
  terms of \<open>normalize_secret_name\<close>.
\<close>

lemma secret_ref_entry_for_key:
  assumes "cfg_environmentVariables cfg \<noteq> JNull" and "cfg_secrets cfg = JObj secs"
    and "distinct (map fst secs)" and "(key, v) \<in> set secs" and "truthy v"
  shows "\<exists>doc. buildJobConfig sub rg en loc cfg = Inr doc
     \<and> filter (is_secret_ref_for key) (doc_env doc) =
           [EnvSecretRef key (normalize_secret_name key)]
     \<and> KeyVaultSecret (normalize_secret_name key) v (cfg_userManagedIdentity cfg)
           \<in> set (doc_secrets doc)"
proof -
  from assms have nn: "cfg_secrets cfg \<noteq> JNull" by simp
  obtain evs where e: "object_entries (cfg_environmentVariables cfg) = Inr evs"
    and b: "buildJobConfig sub rg en loc cfg = Inr (assemble sub rg en loc cfg evs secs)"
    using buildJobConfig_total [OF assms(1) nn, of sub rg en loc] assms(2) by auto
  let ?doc = "assemble sub rg en loc cfg evs secs"
  have vars: "filter (is_secret_ref_for key) (env_of_variables evs) = []"
    by (induction evs) (auto simp: env_of_variables_def)
  have refs: "filter (is_secret_ref_for key)
                (map (\<lambda>(k, v). EnvSecretRef k (normalize_secret_name k))
                   (filter (\<lambda>(k, v). truthy v) xs)) =
              [EnvSecretRef key (normalize_secret_name key)]"
    if "distinct (map fst xs)" "(key, v) \<in> set xs" for xs
    using that assms(5)
  proof (induction xs)
    case Nil
    then show ?case by simp
  next
    case (Cons x xs)
    obtain k u where x: "x = (k, u)" by (cases x)
    show ?case
    proof (cases "k = key")
      case True
      with Cons.prems x have notin: "key \<notin> fst ` set xs" by auto
      with Cons.prems(2) x True have uv: "u = v" by (force simp: image_iff)
      have "filter (is_secret_ref_for key)
                (map (\<lambda>(k, v). EnvSecretRef k (normalize_secret_name k))
                   (filter (\<lambda>(k, v). truthy v) xs)) = []"
        using notin by (auto simp: filter_empty_conv image_iff)
      with True x uv Cons.prems(3) show ?thesis by simp
    next
      case False
      with Cons x show ?thesis by auto
    qed
  qed
  have p1: "filter (is_secret_ref_for key) (doc_env ?doc) =
           [EnvSecretRef key (normalize_secret_name key)]"
    using refs [OF assms(3,4)] vars by (simp add: assemble_env)
  have p2: "KeyVaultSecret (normalize_secret_name key) v (cfg_userManagedIdentity cfg)
           \<in> set (doc_secrets ?doc)"
    using assms(4,5) by (force simp: assemble_secrets)
  show ?thesis
    unfolding b using p1 p2 by blast
qed

text \<open>\<open>normalize_secret_name\<close> character by character.\<close>

lemma normalize_secret_name_explicit:
  "normalize_secret_name key =
     map (\<lambda>c. if c = CHR ''_'' then CHR ''-''
              else (case map_of (zip ''ABCDEFGHIJKLMNOPQRSTUVWXYZ''
                                     ''abcdefghijklmnopqrstuvwxyz'') c of
                      Some d \<Rightarrow> d | None \<Rightarrow> c)) key"
  by (induction key) (simp_all add: str_eval)

lemma explicit_map_range:
  "(if c = CHR ''_'' then CHR ''-''
    else (case map_of (zip ''ABCDEFGHIJKLMNOPQRSTUVWXYZ''
                           ''abcdefghijklmnopqrstuvwxyz'') c of
            Some d \<Rightarrow> d | None \<Rightarrow> c)) \<notin> set ''ABCDEFGHIJKLMNOPQRSTUVWXYZ_''"
  by simp


lemma map_avoids:
  assumes "\<And>c. f c \<notin> S"
  shows "set (map f xs) \<inter> S = {}"
  using assms by auto

text \<open>
  Claim C10. For an entry of the secrets mapping with a truthy value, the environment
  list has exactly one secret reference under the key of the entry. Its name is the key
  as the caller wrote it. Its \<open>secretRef\<close> is the key with every letter \<open>A\<close> to \<open>Z\<close>
  replaced by its lower-case letter and every underscore by a hyphen, so it holds no
  upper-case letter and no underscore; it is also the name of the descriptor pushed for
  the entry.
\<close>

theorem secret_env_entry_keeps_key:
  assumes "cfg_environmentVariables cfg \<noteq> JNull" and "cfg_secrets cfg = JObj secs"
    and "distinct (map fst secs)" and "(key, v) \<in> set secs" and "truthy v"
  shows "\<exists>doc secretName.
       buildJobConfig sub rg en loc cfg = Inr doc
     \<and> secretName =
           map (\<lambda>c. if c = CHR ''_'' then CHR ''-''
                    else (case map_of (zip ''ABCDEFGHIJKLMNOPQRSTUVWXYZ''
                                           ''abcdefghijklmnopqrstuvwxyz'') c of
                            Some d \<Rightarrow> d | None \<Rightarrow> c)) key
     \<and> set secretName \<inter> set ''ABCDEFGHIJKLMNOPQRSTUVWXYZ_'' = {}
     \<and> filter (is_secret_ref_for key) (doc_env doc) = [EnvSecretRef key secretName]
     \<and> KeyVaultSecret secretName v (cfg_userManagedIdentity cfg) \<in> set (doc_secrets doc)"
proof -
  let ?f = "\<lambda>c. if c = CHR ''_'' then CHR ''-''
                    else (case map_of (zip ''ABCDEFGHIJKLMNOPQRSTUVWXYZ''
                                           ''abcdefghijklmnopqrstuvwxyz'') c of
                            Some d \<Rightarrow> d | None \<Rightarrow> c)"
  from secret_ref_entry_for_key [OF assms, of sub rg en loc]
  obtain doc where d: "buildJobConfig sub rg en loc cfg = Inr doc"
    "filter (is_secret_ref_for key) (doc_env doc) =
           [EnvSecretRef key (normalize_secret_name key)]"
    "KeyVaultSecret (normalize_secret_name key) v (cfg_userManagedIdentity cfg)
           \<in> set (doc_secrets doc)" by blast
  have n: "normalize_secret_name key = map ?f key"
    by (rule normalize_secret_name_explicit)
  have r: "set (map ?f key) \<inter> set ''ABCDEFGHIJKLMNOPQRSTUVWXYZ_'' = {}"
    by (rule map_avoids) (rule explicit_map_range)
  show ?thesis
  proof (intro exI conjI)
    show "buildJobConfig sub rg en loc cfg = Inr doc" by (rule d(1))
    show "map ?f key = map ?f key" ..
    show "set (map ?f key) \<inter> set ''ABCDEFGHIJKLMNOPQRSTUVWXYZ_'' = {}" by (rule r)
    show "filter (is_secret_ref_for key) (doc_env doc) = [EnvSecretRef key (map ?f key)]"
      using d(2) unfolding n .
    show "KeyVaultSecret (map ?f key) v (cfg_userManagedIdentity cfg) \<in> set (doc_secrets doc)"
      using d(3) unfolding n .
  qed
qed

theorem secret_env_entry_keeps_key_witness:
  "\<exists>doc. buildJobConfig ''s'' ''g'' ''e'' ''eastus''
            (example_config\<lparr>cfg_secrets := JObj [(''API_KEY'', JStr ''https://v/k'')]\<rparr>) = Inr doc
     \<and> filter (is_secret_ref_for ''API_KEY'') (doc_env doc) = [EnvSecretRef ''API_KEY'' ''api-key'']
     \<and> KeyVaultSecret ''api-key'' (JStr ''https://v/k'') [] \<in> set (doc_secrets doc)"
  using secret_env_entry_keeps_key [of "example_config\<lparr>cfg_secrets := JObj [(''API_KEY'', JStr ''https://v/k'')]\<rparr>"
     "[(''API_KEY'', JStr ''https://v/k'')]" "''API_KEY''" "JStr ''https://v/k''" "''s''" "''g''" "''e''" "''eastus''"]
  by (simp add: example_config_def)

section \<open>Properties of the poll loop\<close>

lemma poll_loop_timeout:
  assumes "timed_out_at w timeout n"
  shows "poll_loop w rg job exn timeout n tr = Some (tr, Inl (timeout_error timeout))"
  using assms by (subst poll_loop.simps) (simp add: timed_out_at_def timeout_error_def)

lemma poll_loop_terminal:
  assumes "\<not> timed_out_at w timeout n" and "w_jobExecution w n = Inr (Some ex)"
    and "terminal_status (ex_status ex)"
  shows "poll_loop w rg job exn timeout n tr =
           Some (tr @ [Remote (ExecutionGet rg job exn),
                       Info (''Job status: '' @ show_opt (ex_status ex))], Inr ex)"
  using assms by (subst poll_loop.simps) (simp add: timed_out_at_def)

lemma poll_loop_continue:
  assumes "\<not> timed_out_at w timeout i" and "\<not> terminal_at w i"
  shows "poll_loop w rg job exn timeout i tr =
           poll_loop w rg job exn timeout (Suc i) (tr @ iteration_events w rg job exn i)"
  using assms
  by (subst poll_loop.simps)
     (simp add: timed_out_at_def terminal_at_def iteration_events_def
           split: sum.splits option.splits)

lemma poll_loop_skip:
  assumes "\<forall>j. i \<le> j \<and> j < n \<longrightarrow> \<not> timed_out_at w timeout j \<and> \<not> terminal_at w j"
    and "i \<le> n"
  shows "poll_loop w rg job exn timeout i tr =
           poll_loop w rg job exn timeout n
             (tr @ concat (map (iteration_events w rg job exn) [i..<n]))"
  using assms(2,1)
proof (induction n rule: dec_induct)
  case base
  then show ?case by simp
next
  case (step n)
  have "poll_loop w rg job exn timeout i tr =
          poll_loop w rg job exn timeout n
             (tr @ concat (map (iteration_events w rg job exn) [i..<n]))"
    using step by simp
  also have "\<dots> = poll_loop w rg job exn timeout (Suc n)
             ((tr @ concat (map (iteration_events w rg job exn) [i..<n]))
                @ iteration_events w rg job exn n)"
    using step.prems step.hyps by (intro poll_loop_continue) auto
  finally show ?case using step.hyps by simp
qed

lemma poll_loop_Some_stops_aux:
  assumes "poll_loop w rg job exn timeout i tr = Some r"
  shows "poll_loop w rg job exn timeout i tr = Some r \<longrightarrow>
           (\<exists>n\<ge>i. timed_out_at w timeout n \<or> terminal_at w n)"
  using assms
proof (induction w rg job exn timeout i tr r rule: poll_loop.raw_induct [rotated 1, consumes 1])
  case (1 loop w rg job exn timeout i tr r)
  show ?case
  proof (cases "timed_out_at w timeout i \<or> terminal_at w i")
    case True
    then show ?thesis by blast
  next
    case False
    show ?thesis
    proof
      assume here: "poll_loop w rg job exn timeout i tr = Some r"
      have real: "poll_loop w rg job exn timeout (Suc i) (tr @ iteration_events w rg job exn i) = Some r"
        using False here poll_loop_continue [of w timeout i rg job exn tr] by simp
      from False have "loop w rg job exn timeout (Suc i) (tr @ iteration_events w rg job exn i) = Some r"
        using "1.hyps"
        by (auto simp: timed_out_at_def terminal_at_def iteration_events_def
                 split: sum.splits option.splits if_splits)
      then obtain n where "n \<ge> Suc i" "timed_out_at w timeout n \<or> terminal_at w n"
        using "1.IH" real by blast
      then show "\<exists>n\<ge>i. timed_out_at w timeout n \<or> terminal_at w n" by (metis Suc_leD)
    qed
  qed
qed

lemma poll_loop_Some_stops:
  assumes "poll_loop w rg job exn timeout i tr = Some r"
  shows "\<exists>n\<ge>i. timed_out_at w timeout n \<or> terminal_at w n"
  using poll_loop_Some_stops_aux [OF assms] assms by blast

text \<open>The first iteration at which the loop stops, and what it returns there.\<close>

lemma poll_loop_first_stop:
  assumes "timed_out_at w timeout n \<or> terminal_at w n"
    and "\<forall>j<n. \<not> timed_out_at w timeout j \<and> \<not> terminal_at w j"
  shows "poll_loop w rg job exn timeout 0 tr =
     (if timed_out_at w timeout n
      then Some (tr @ concat (map (iteration_events w rg job exn) [0..<n]),
                 Inl (timeout_error timeout))
      else (case w_jobExecution w n of
              Inr (Some ex) \<Rightarrow>
                Some (tr @ concat (map (iteration_events w rg job exn) [0..<n])
                         @ [Remote (ExecutionGet rg job exn),
                            Info (''Job status: '' @ show_opt (ex_status ex))], Inr ex)
            | _ \<Rightarrow> None))"
proof -
  have skip: "poll_loop w rg job exn timeout 0 tr =
           poll_loop w rg job exn timeout n
             (tr @ concat (map (iteration_events w rg job exn) [0..<n]))"
    using assms(2) by (intro poll_loop_skip) auto
  show ?thesis
  proof (cases "timed_out_at w timeout n")
    case True
    then show ?thesis using skip by (simp add: poll_loop_timeout)
  next
    case False
    with assms(1) have "terminal_at w n" by simp
    then obtain ex where ex: "w_jobExecution w n = Inr (Some ex)" "terminal_status (ex_status ex)"
      by (auto simp: terminal_at_def split: sum.splits option.splits)
    show ?thesis
      using False skip ex poll_loop_terminal [OF False ex] by simp
  qed
qed

lemma first_stop_exists:
  assumes "\<exists>n. timed_out_at w timeout n \<or> terminal_at w n"
  shows "\<exists>n. (timed_out_at w timeout n \<or> terminal_at w n)
            \<and> (\<forall>j<n. \<not> timed_out_at w timeout j \<and> \<not> terminal_at w j)"
proof -
  let ?P = "\<lambda>n. timed_out_at w timeout n \<or> terminal_at w n"
  from assms obtain m where "?P m" by blast
  then have "?P (LEAST n. ?P n)" by (rule LeastI)
  moreover have "\<forall>j < (LEAST n. ?P n). \<not> ?P j" using not_less_Least by blast
  ultimately show ?thesis by blast
qed






section \<open>Properties of the orchestrator\<close>

lemmas input_eval = getInputs_def getInput_def getOptional_def parseJsonInput_def
  lookup_input_def or_default_def parseCommand_def example_world_def standard_inputs_def
  trim_def is_space_def toLowerCase_def lower_char_def upper_letters_def lower_letters_def
  Error_def

lemma parse_1800: "parseInt10 ''1800'' = Num 1800"
  by (simp add: parseInt10_def is_space_def is_digit_def digits_value_def digit_value_def)

lemma getInputs_dry:
  "getInputs (example_world ((''dry-run'', ''true'') # standard_inputs)) =
     Inr \<lparr>in_subscriptionId = ''sub'', in_resourceGroup = ''rg'',
          in_environmentName = ''env'', in_jobName = ''job'', in_image = ''img'',
          in_command = None, in_userManagedIdentity = [], in_cronSchedule = [],
          in_cpu = ''0.5'', in_memory = ''1Gi'', in_timeout = Num 1800,
          in_registryServer = [], in_registryUsername = [], in_registryPassword = [],
          in_dryRun = True, in_logAnalyticsWorkspaceId = [],
          in_manualExecution = False, in_onlyDeleteJob = False,
          in_environmentVariables = JObj [], in_secrets = JObj []\<rparr>"
  by (simp add: input_eval parse_1800)


lemma example_world_fields:
  "w_environment (example_world kvs) = Inr (Some ''East US'')"
  "w_createOrUpdate (example_world kvs) = Inr ()"
  "w_start (example_world kvs) = Inr running_execution"
  "w_delete (example_world kvs) = Inr ()"
  "w_poll_startTime (example_world kvs) = 0"
  "w_poll_now (example_world kvs) i = 10000 * int i"
  "w_name_time (example_world kvs) = 1700000000000"
  "w_random36 (example_world kvs) = ''0.4fzyo82mvyr''"
  by (simp_all add: example_world_def)

lemmas run_eval = run_def run_body_def resolve_jobName_def config_banner_def createJob_def
  deleteJob_def normalizeAzureLocation_def
  show_opt_def show_jsint_def show_int_def decimal.simps digit_char_def
  startJobExecution_def dumpJobLogs_def catch_block_def truthy_str_def
  example_world_fields Let_def or_default_def
  toLowerCase_def lower_char_def upper_letters_def lower_letters_def is_space_def

lemma buildJobConfig_example:
  "buildJobConfig s r e l (example_config\<lparr>cfg_image := i\<rparr>) =
     Inr (assemble s r e l (example_config\<lparr>cfg_image := i\<rparr>) [] [])"
  by (simp add: buildJobConfig_def example_config_def)

lemma config_of_plain_inputs:
  "config_of_inputs
     \<lparr>in_subscriptionId = sub, in_resourceGroup = rg,
      in_environmentName = env, in_jobName = job, in_image = img,
      in_command = None, in_userManagedIdentity = [], in_cronSchedule = [],
      in_cpu = ''0.5'', in_memory = ''1Gi'', in_timeout = t,
      in_registryServer = [], in_registryUsername = [], in_registryPassword = [],
      in_dryRun = d, in_logAnalyticsWorkspaceId = ws,
      in_manualExecution = m, in_onlyDeleteJob = od,
      in_environmentVariables = JObj [], in_secrets = JObj []\<rparr>
   = example_config\<lparr>cfg_image := img\<rparr>"
  by (simp add: config_of_inputs_def example_config_def)

lemma getInputs_delete_dry:
  "getInputs (example_world ((''only-delete-job'', ''true'') # (''dry-run'', ''true'') # standard_inputs)) =
     Inr \<lparr>in_subscriptionId = ''sub'', in_resourceGroup = ''rg'',
          in_environmentName = ''env'', in_jobName = ''job'', in_image = ''img'',
          in_command = None, in_userManagedIdentity = [], in_cronSchedule = [],
          in_cpu = ''0.5'', in_memory = ''1Gi'', in_timeout = Num 1800,
          in_registryServer = [], in_registryUsername = [], in_registryPassword = [],
          in_dryRun = True, in_logAnalyticsWorkspaceId = [],
          in_manualExecution = False, in_onlyDeleteJob = True,
          in_environmentVariables = JObj [], in_secrets = JObj []\<rparr>"
  by (simp add: input_eval parse_1800)

text \<open>
  Claim C1 says that a run with \<open>dry-run\<close> set issues no remote call, prints the
  assembled document and sets only the \<open>job-name\<close> output. The orchestrator hands the
  flag to \<open>createJob\<close> and \<open>deleteJob\<close>, which do not take it: a dry run in standard mode
  reads the environment and submits the job, a dry run in delete-only mode deletes the
  job, and no line of the log is the document.
\<close>

theorem dry_run_issues_remote_calls:
  "run (example_world ((''dry-run'', ''true'') # standard_inputs)) =
     Some [Info ''=== Azure Container App Job Configuration ==='',
           Info ''Subscription: sub'',
           Info ''Resource Group: rg'',
           Info ''Environment: env'',
           Info ''Job Name: job'',
           Info ''Image: img'',
           Info ''Command: default'',
           Info ''Timeout: 1800s'',
           Info ''Run type: One off execution [Dry Run]'',
           Info ''Authenticating with Azure...'',
           Info ''Creating job: job'',
           Remote (EnvironmentGet ''rg'' ''env''),
           Info ''Using location from environment: East US -> eastus'',
           Remote (CreateOrUpdate ''rg'' ''job''
                     (assemble ''sub'' ''rg'' ''env'' ''eastus''
                        (example_config\<lparr>cfg_image := ''img''\<rparr>) [] [])),
           Info ''Job created successfully: job'',
           SetOutput ''job-name'' ''job'',
           Info ''Dry run mode enabled, skipping job execution'']
   \<and> run (example_world ((''only-delete-job'', ''true'') # (''dry-run'', ''true'') # standard_inputs)) =
     Some [Info ''=== Azure Container App Job Configuration ==='',
           Info ''Subscription: sub'',
           Info ''Resource Group: rg'',
           Info ''Environment: env'',
           Info ''Job Name: job'',
           Info ''Image: img'',
           Info ''Command: default'',
           Info ''Timeout: 1800s'',
           Info ''Run type: Delete a job [Dry Run]'',
           Info ''Authenticating with Azure...'',
           Info ''Deleting job: job'',
           Remote (DeleteJob ''rg'' ''job''),
           Info ''Job deleted successfully: job'']"
  by (simp add: getInputs_dry getInputs_delete_dry run_eval config_of_plain_inputs
        buildJobConfig_example)

lemma getInput_required_nonempty:
  "getInput w name True = Inr v \<Longrightarrow> v \<noteq> []"
  by (auto simp: getInput_def Let_def split: if_splits)

lemma getInputs_resourceGroup:
  assumes "getInputs w = Inr inp"
  shows "in_resourceGroup inp \<noteq> []"
proof -
  from assms obtain rg where "getInput w ''resource-group'' True = Inr rg"
    and "in_resourceGroup inp = rg"
    by (auto simp: getInputs_def Let_def split: sum.splits)
  then show ?thesis using getInput_required_nonempty by blast
qed

lemma resolve_jobName_nonempty: "resolve_jobName w inp \<noteq> []"
  by (simp add: resolve_jobName_def generateJobName_def Let_def)

lemma failures_append [simp]: "failures (xs @ ys) = failures xs @ failures ys"
  by (simp add: failures_def)

lemma failures_Cons:
  "failures (ev # xs) = (case ev of SetFailed m \<Rightarrow> [m] | _ \<Rightarrow> []) @ failures xs"
  by (simp add: failures_def)

lemma failures_Nil [simp]: "failures [] = []"
  by (simp add: failures_def)

lemma failures_empty_iff: "failures tr = [] \<longleftrightarrow> (\<forall>m. SetFailed m \<notin> set tr)"
  by (induction tr) (auto simp: failures_Cons split: event.splits)

lemma iteration_events_quiet: "\<forall>ev \<in> set (iteration_events w rg job exn i). quiet ev"
  by (auto simp: iteration_events_def quiet_def split: sum.splits option.splits)

lemma pollJobExecution_quiet:
  assumes "pollJobExecution w rg job exn timeout = Some (tr, res)"
  shows "\<forall>ev \<in> set tr. quiet ev"
proof -
  let ?tr0 = "[Info (''Polling for job completion (timeout: '' @ show_jsint timeout @ ''s)'')]"
  have p: "poll_loop w rg job exn timeout 0 ?tr0 = Some (tr, res)"
    using assms by (simp add: pollJobExecution_def)
  from poll_loop_Some_stops [OF p] first_stop_exists [of w timeout]
  obtain n where n: "timed_out_at w timeout n \<or> terminal_at w n"
     "\<forall>j<n. \<not> timed_out_at w timeout j \<and> \<not> terminal_at w j" by blast
  have its: "\<forall>ev \<in> set (concat (map (iteration_events w rg job exn) [0..<n])). quiet ev"
    using iteration_events_quiet by auto
  have "\<forall>ev \<in> set tr. quiet ev \<or> ev \<in> set (concat (map (iteration_events w rg job exn) [0..<n]))"
    using poll_loop_first_stop [OF n, of rg job exn ?tr0] p
    by (auto simp: quiet_def split: if_splits sum.splits option.splits)
  with its show ?thesis by blast
qed

lemma createJob_quiet:
  "createJob w sub rg env job cfg = (tr, res) \<Longrightarrow> \<forall>ev \<in> set tr. quiet ev"
  by (auto simp: createJob_def Let_def quiet_def split: sum.splits)

lemma startJobExecution_quiet:
  "startJobExecution w rg job = (tr, res) \<Longrightarrow> \<forall>ev \<in> set tr. quiet ev"
  by (auto simp: startJobExecution_def Let_def quiet_def split: sum.splits)

lemma run_body_error_quiet:
  assumes "run_body w inp job = Some (tr, Inl e)"
  shows "\<forall>ev \<in> set tr. quiet ev \<or> ev = SetOutput ''job-name'' job
            \<or> (\<exists>n. ev = SetOutput ''execution-name'' n)"
proof (cases "in_onlyDeleteJob inp")
  case True
  with assms show ?thesis by (simp add: run_body_def)
next
  case False
  obtain tr1 r1 where c: "createJob w (in_subscriptionId inp) (in_resourceGroup inp)
       (in_environmentName inp) job (config_of_inputs inp) = (tr1, r1)" by fastforce
  note q1 = createJob_quiet [OF c]
  show ?thesis
  proof (cases r1)
    case (Inl e1)
    with assms False c q1 show ?thesis by (auto simp: run_body_def)
  next
    case (Inr u)
    show ?thesis
    proof (cases "in_cronSchedule inp \<noteq> [] \<or> in_manualExecution inp \<or> in_dryRun inp")
      case True
      with assms False c Inr show ?thesis by (auto simp: run_body_def Let_def split: if_splits)
    next
      case std: False
      obtain tr3 r3 where s: "startJobExecution w (in_resourceGroup inp) job = (tr3, r3)"
        by fastforce
      note q3 = startJobExecution_quiet [OF s]
      show ?thesis
      proof (cases r3)
        case (Inl e3)
        with assms False c Inr std s q1 q3 show ?thesis
          by (auto simp: run_body_def Let_def)
      next
        case ex: (Inr execution)
        from assms False c Inr std s ex obtain tr5 where
          p: "pollJobExecution w (in_resourceGroup inp) job (ex_name execution) (in_timeout inp)
                = Some (tr5, Inl e)"
          and tr: "tr = (tr1 @ [SetOutput ''job-name'' job]) @ tr3
                        @ [SetOutput ''execution-name'' (ex_name execution)] @ tr5"
          by (auto simp: run_body_def Let_def split: option.splits sum.splits if_splits)
        from pollJobExecution_quiet [OF p] q1 q3 tr show ?thesis by auto
      qed
    qed
  qed
qed

lemma deleteJob_events: "deleteJob w rg job = cleanup_events w rg job"
  by (simp add: deleteJob_def cleanup_events_def split: sum.splits)

text \<open>
  Claim C2. When the inputs were read (so the client is constructed and the job name
  resolved) and the rest of the \<open>try\<close> block throws \<open>e\<close>, the run logs the error, then,
  if no cron schedule was requested, deletes the job, where a failing delete only logs a
  warning, and last sets the failure to the message of \<open>e\<close>. That message is the only
  failure reason of the run. With a cron schedule the run issues no delete at all.
\<close>

theorem cleanup_on_failure:
  assumes "getInputs w = Inr inp" and "jobName = resolve_jobName w inp"
    and "run_body w inp jobName = Some (tr, Inl e)"
  shows "\<exists>full cleanup.
      run w = Some full
    \<and> full = config_banner inp jobName @ tr
              @ [ErrorLog (''Error: '' @ err_message e), ErrorStack e]
              @ cleanup @ [SetFailed (err_message e)]
    \<and> cleanup = (if in_cronSchedule inp = []
                  then cleanup_events w (in_resourceGroup inp) jobName else [])
    \<and> failures full = [err_message e]
    \<and> (in_cronSchedule inp \<noteq> [] \<longrightarrow> (\<forall>rg j. Remote (DeleteJob rg j) \<notin> set full))"
proof -
  let ?cleanup = "if in_cronSchedule inp = []
                  then cleanup_events w (in_resourceGroup inp) jobName else []"
  let ?full = "config_banner inp jobName @ tr
              @ [ErrorLog (''Error: '' @ err_message e), ErrorStack e]
              @ ?cleanup @ [SetFailed (err_message e)]"
  have rg: "in_resourceGroup inp \<noteq> []" using getInputs_resourceGroup [OF assms(1)] .
  have jn: "jobName \<noteq> []" using assms(2) resolve_jobName_nonempty by simp
  have r: "run w = Some ?full"
    using assms rg jn
    by (simp add: run_def Let_def catch_block_def truthy_str_def show_opt_def deleteJob_events)
  have q: "\<forall>ev \<in> set tr. (\<forall>m. ev \<noteq> SetFailed m) \<and> (\<forall>rg j. ev \<noteq> Remote (DeleteJob rg j))"
    using run_body_error_quiet [OF assms(3)] by (auto simp: quiet_def)
  have fb: "failures (config_banner inp jobName) = []"
    by (auto simp: config_banner_def failures_empty_iff Let_def)
  have ft: "failures tr = []" using q by (auto simp: failures_empty_iff)
  have fc: "failures ?cleanup = []"
    by (auto simp: cleanup_events_def failures_empty_iff split: sum.splits)
  have f: "failures ?full = [err_message e]"
    using fb ft fc by (simp add: failures_Cons)
  have nd: "\<forall>rg j. Remote (DeleteJob rg j) \<notin> set ?full" if "in_cronSchedule inp \<noteq> []"
    using that q by (auto simp: config_banner_def Let_def)
  show ?thesis using r f nd by blast
qed

lemma getInputs_same_inputs:
  assumes "w_core_getInput w' = w_core_getInput w" and "w_process_env w' = w_process_env w"
    and "w_JSON_parse w' = w_JSON_parse w"
  shows "getInputs w' = getInputs w"
proof -
  have gi: "getInput w' n r = getInput w n r" for n r
    unfolding getInput_def assms ..
  have go: "getOptional w' n = getOptional w n" for n
    unfolding getOptional_def gi ..
  have pj: "parseJsonInput w' n = parseJsonInput w n" for n
    unfolding parseJsonInput_def go assms ..
  show ?thesis
    unfolding getInputs_def gi go pj ..
qed

lemma getInputs_standard:
  "getInputs (example_world standard_inputs) =
     Inr \<lparr>in_subscriptionId = ''sub'', in_resourceGroup = ''rg'',
          in_environmentName = ''env'', in_jobName = ''job'', in_image = ''img'',
          in_command = None, in_userManagedIdentity = [], in_cronSchedule = [],
          in_cpu = ''0.5'', in_memory = ''1Gi'', in_timeout = Num 1800,
          in_registryServer = [], in_registryUsername = [], in_registryPassword = [],
          in_dryRun = False, in_logAnalyticsWorkspaceId = [],
          in_manualExecution = False, in_onlyDeleteJob = False,
          in_environmentVariables = JObj [], in_secrets = JObj []\<rparr>"
  by (simp add: input_eval parse_1800)

lemma getInputs_cron:
  "getInputs (example_world ((''cron-schedule'', ''0 * * * *'') # standard_inputs)) =
     Inr \<lparr>in_subscriptionId = ''sub'', in_resourceGroup = ''rg'',
          in_environmentName = ''env'', in_jobName = ''job'', in_image = ''img'',
          in_command = None, in_userManagedIdentity = [], in_cronSchedule = ''0 * * * *'',
          in_cpu = ''0.5'', in_memory = ''1Gi'', in_timeout = Num 1800,
          in_registryServer = [], in_registryUsername = [], in_registryPassword = [],
          in_dryRun = False, in_logAnalyticsWorkspaceId = [],
          in_manualExecution = False, in_onlyDeleteJob = False,
          in_environmentVariables = JObj [], in_secrets = JObj []\<rparr>"
  by (simp add: input_eval parse_1800)

theorem cleanup_on_failure_witness:
  "(\<exists>full. run (create_fails (example_world standard_inputs)) = Some full
      \<and> failures full = [''Failed to create job: quota exceeded'']
      \<and> Remote (DeleteJob ''rg'' ''job'') \<in> set full
      \<and> Warning ''Failed to delete job: not found'' \<in> set full)
   \<and> (\<exists>full. run (create_fails (example_world ((''cron-schedule'', ''0 * * * *'') # standard_inputs)))
                  = Some full
      \<and> failures full = [''Failed to create job: quota exceeded'']
      \<and> Remote (DeleteJob ''rg'' ''job'') \<notin> set full)"
proof
  let ?w = "create_fails (example_world standard_inputs)"
  let ?inp = "\<lparr>in_subscriptionId = ''sub'', in_resourceGroup = ''rg'',
          in_environmentName = ''env'', in_jobName = ''job'', in_image = ''img'',
          in_command = None, in_userManagedIdentity = [], in_cronSchedule = [],
          in_cpu = ''0.5'', in_memory = ''1Gi'', in_timeout = Num 1800,
          in_registryServer = [], in_registryUsername = [], in_registryPassword = [],
          in_dryRun = False, in_logAnalyticsWorkspaceId = [],
          in_manualExecution = False, in_onlyDeleteJob = False,
          in_environmentVariables = JObj [], in_secrets = JObj []\<rparr>"
  have i: "getInputs ?w = Inr ?inp"
    using getInputs_same_inputs [of ?w "example_world standard_inputs"] getInputs_standard
    by (simp add: create_fails_def)
  have j: "''job'' = resolve_jobName ?w ?inp" by (simp add: resolve_jobName_def)
  obtain tr where b: "run_body ?w ?inp ''job'' = Some (tr, Inl (Error ''Failed to create job: quota exceeded''))"
    by (simp add: run_body_def createJob_def create_fails_def example_world_fields Let_def
          config_of_plain_inputs buildJobConfig_example Error_def)
  from cleanup_on_failure [OF i j b]
  show "\<exists>full. run ?w = Some full
      \<and> failures full = [''Failed to create job: quota exceeded'']
      \<and> Remote (DeleteJob ''rg'' ''job'') \<in> set full
      \<and> Warning ''Failed to delete job: not found'' \<in> set full"
    by (auto simp: Error_def cleanup_events_def create_fails_def)
next
  let ?w = "create_fails (example_world ((''cron-schedule'', ''0 * * * *'') # standard_inputs))"
  let ?inp = "\<lparr>in_subscriptionId = ''sub'', in_resourceGroup = ''rg'',
          in_environmentName = ''env'', in_jobName = ''job'', in_image = ''img'',
          in_command = None, in_userManagedIdentity = [], in_cronSchedule = ''0 * * * *'',
          in_cpu = ''0.5'', in_memory = ''1Gi'', in_timeout = Num 1800,
          in_registryServer = [], in_registryUsername = [], in_registryPassword = [],
          in_dryRun = False, in_logAnalyticsWorkspaceId = [],
          in_manualExecution = False, in_onlyDeleteJob = False,
          in_environmentVariables = JObj [], in_secrets = JObj []\<rparr>"
  have i: "getInputs ?w = Inr ?inp"
    using getInputs_same_inputs [of ?w "example_world ((''cron-schedule'', ''0 * * * *'') # standard_inputs)"]
      getInputs_cron
    by (simp add: create_fails_def)
  have j: "''job'' = resolve_jobName ?w ?inp" by (simp add: resolve_jobName_def)
  obtain tr where b: "run_body ?w ?inp ''job'' = Some (tr, Inl (Error ''Failed to create job: quota exceeded''))"
    by (simp add: run_body_def createJob_def create_fails_def example_world_fields Let_def
          config_of_inputs_def buildJobConfig_def Error_def)
  from cleanup_on_failure [OF i j b]
  show "\<exists>full. run ?w = Some full
      \<and> failures full = [''Failed to create job: quota exceeded'']
      \<and> Remote (DeleteJob ''rg'' ''job'') \<notin> set full"
    by (auto simp: Error_def)
qed

lemma finishing_with_fields:
  "w_environment (finishing_with ex w) = w_environment w"
  "w_createOrUpdate (finishing_with ex w) = w_createOrUpdate w"
  "w_start (finishing_with ex w) = w_start w"
  "w_delete (finishing_with ex w) = w_delete w"
  "w_poll_startTime (finishing_with ex w) = w_poll_startTime w"
  "w_poll_now (finishing_with ex w) = w_poll_now w"
  "w_jobExecution (finishing_with ex w) i = Inr (Some ex)"
  "w_logs (finishing_with ex w) = w_logs w"
  by (simp_all add: finishing_with_def)

lemma getInputs_finishing_with: "getInputs (finishing_with ex w) = getInputs w"
  by (rule getInputs_same_inputs) (simp_all add: finishing_with_def)

lemma poll_finishing_with:
  assumes "terminal_status (ex_status ex)" and "w_poll_now w 0 - w_poll_startTime w \<le> t * 1000"
  shows "pollJobExecution (finishing_with ex w) rg job exn (Num t) =
     Some ([Info (''Polling for job completion (timeout: '' @ show_int t @ ''s)''),
            Remote (ExecutionGet rg job exn),
            Info (''Job status: '' @ show_opt (ex_status ex))], Inr ex)"
  unfolding pollJobExecution_def
  using assms
  by (subst poll_loop.simps)
     (simp add: finishing_with_fields exceeds_def timeoutMs_def show_jsint_def)

text \<open>
  Claim C3 says that a standard run whose polled execution ends \<open>Failed\<close> fails. The poll
  loop reads \<open>execution.status\<close>; \<open>run\<close> reads \<open>execution.properties.status\<close>. For an
  execution \<open>{name, status: Failed}\<close> without \<open>properties\<close> the poll returns it as final,
  \<open>run\<close> sees status \<open>undefined\<close> and exit code \<open>0\<close>, deletes the job and sets no failure.
\<close>

theorem failed_execution_run_succeeds:
  "run (finishing_with failed_execution (example_world standard_inputs)) =
     Some [Info ''=== Azure Container App Job Configuration ==='',
           Info ''Subscription: sub'',
           Info ''Resource Group: rg'',
           Info ''Environment: env'',
           Info ''Job Name: job'',
           Info ''Image: img'',
           Info ''Command: default'',
           Info ''Timeout: 1800s'',
           Info ''Run type: One off execution '',
           Info ''Authenticating with Azure...'',
           Info ''Creating job: job'',
           Remote (EnvironmentGet ''rg'' ''env''),
           Info ''Using location from environment: East US -> eastus'',
           Remote (CreateOrUpdate ''rg'' ''job''
                     (assemble ''sub'' ''rg'' ''env'' ''eastus''
                        (example_config\<lparr>cfg_image := ''img''\<rparr>) [] [])),
           Info ''Job created successfully: job'',
           SetOutput ''job-name'' ''job'',
           Info ''Starting job execution: job'',
           Remote (StartExecution ''rg'' ''job''),
           Info ''Job execution started: exec-1'',
           SetOutput ''execution-name'' ''exec-1'',
           Info ''Polling for job completion (timeout: 1800s)'',
           Remote (ExecutionGet ''rg'' ''job'' ''exec-1''),
           Info ''Job status: Failed'',
           Info ''=== Job Completed ==='',
           Info ''Status: undefined'',
           Info ''Exit Code: 0'',
           Info ''No Log Analytics Workspace ID provided, skipping log dump'',
           Info ''Deleting job: job'',
           Remote (DeleteJob ''rg'' ''job''),
           Info ''Job deleted successfully: job'']"
proof -
  have t: "terminal_status (ex_status failed_execution)"
    by (simp add: terminal_status_def failed_execution_def)
  have p: "pollJobExecution (finishing_with failed_execution (example_world standard_inputs))
             ''rg'' ''job'' ''exec-1'' (Num 1800) =
           Some ([Info (''Polling for job completion (timeout: '' @ show_int 1800 @ ''s)''),
            Remote (ExecutionGet ''rg'' ''job'' ''exec-1''),
            Info (''Job status: '' @ show_opt (ex_status failed_execution))], Inr failed_execution)"
    by (rule poll_finishing_with [OF t]) (simp add: example_world_fields)
  have f: "final_status failed_execution = None" "final_exitCode failed_execution = 0"
    "ex_status failed_execution = Some ''Failed''"
    by (simp_all add: final_status_def final_exitCode_def failed_execution_def)
  show ?thesis
    by (simp add: getInputs_finishing_with getInputs_standard run_eval finishing_with_fields
          config_of_plain_inputs buildJobConfig_example p f running_execution_def trim_def)
qed

text \<open>
  When the final execution does carry \<open>properties\<close> with status \<open>Failed\<close> or a non-zero
  exit code, the run sets both outputs, then deletes the job, then fails.
\<close>

lemma standard_run_reported_failure:
  assumes "getInputs w = Inr inp" and "jobName = resolve_jobName w inp"
    and "\<not> in_onlyDeleteJob inp" and "in_cronSchedule inp = []"
    and "\<not> in_manualExecution inp" and "\<not> in_dryRun inp"
    and "createJob w (in_subscriptionId inp) (in_resourceGroup inp) (in_environmentName inp)
           jobName (config_of_inputs inp) = (tr1, Inr ())"
    and "startJobExecution w (in_resourceGroup inp) jobName = (tr3, Inr execution)"
    and "pollJobExecution w (in_resourceGroup inp) jobName (ex_name execution) (in_timeout inp)
           = Some (tr5, Inr finalExecution)"
    and "final_status finalExecution = Some ''Failed'' \<or> final_exitCode finalExecution \<noteq> 0"
  shows "run w = Some (config_banner inp jobName @ tr1 @ [SetOutput ''job-name'' jobName]
           @ tr3 @ [SetOutput ''execution-name'' (ex_name execution)] @ tr5
           @ [Info ''=== Job Completed ==='',
              Info (''Status: '' @ show_opt (final_status finalExecution)),
              Info (''Exit Code: '' @ show_int (final_exitCode finalExecution))]
           @ dumpJobLogs w (in_logAnalyticsWorkspaceId inp) jobName
           @ cleanup_events w (in_resourceGroup inp) jobName
           @ [SetFailed (''Job execution failed with exit code: ''
                          @ show_int (final_exitCode finalExecution))])"
  using assms by (simp add: run_def run_body_def Let_def deleteJob_events)

lemma getInputs_no_image:
  "getInputs (example_world no_image_inputs) =
     Inr \<lparr>in_subscriptionId = ''sub'', in_resourceGroup = ''rg'',
          in_environmentName = ''env'', in_jobName = ''job'', in_image = [],
          in_command = None, in_userManagedIdentity = [], in_cronSchedule = [],
          in_cpu = ''0.5'', in_memory = ''1Gi'', in_timeout = Num 1800,
          in_registryServer = [], in_registryUsername = [], in_registryPassword = [],
          in_dryRun = False, in_logAnalyticsWorkspaceId = [],
          in_manualExecution = False, in_onlyDeleteJob = False,
          in_environmentVariables = JObj [], in_secrets = JObj []\<rparr>"
  by (simp add: input_eval parse_1800 no_image_inputs_def)

text \<open>
  Claim C8 says that a run which is not delete-only rejects a missing image while it reads
  its inputs. \<open>getInputs\<close> reads \<open>image\<close> as not required: without an image the inputs are
  read without error, and the run creates, starts, polls and deletes a job whose image is
  the empty string.
\<close>

theorem missing_image_not_rejected:
  "getInputs (example_world no_image_inputs) =
     Inr \<lparr>in_subscriptionId = ''sub'', in_resourceGroup = ''rg'',
          in_environmentName = ''env'', in_jobName = ''job'', in_image = [],
          in_command = None, in_userManagedIdentity = [], in_cronSchedule = [],
          in_cpu = ''0.5'', in_memory = ''1Gi'', in_timeout = Num 1800,
          in_registryServer = [], in_registryUsername = [], in_registryPassword = [],
          in_dryRun = False, in_logAnalyticsWorkspaceId = [],
          in_manualExecution = False, in_onlyDeleteJob = False,
          in_environmentVariables = JObj [], in_secrets = JObj []\<rparr>
   \<and> run (finishing_with succeeded_execution (example_world no_image_inputs)) =
     Some [Info ''=== Azure Container App Job Configuration ==='',
           Info ''Subscription: sub'',
           Info ''Resource Group: rg'',
           Info ''Environment: env'',
           Info ''Job Name: job'',
           Info ''Image: '',
           Info ''Command: default'',
           Info ''Timeout: 1800s'',
           Info ''Run type: One off execution '',
           Info ''Authenticating with Azure...'',
           Info ''Creating job: job'',
           Remote (EnvironmentGet ''rg'' ''env''),
           Info ''Using location from environment: East US -> eastus'',
           Remote (CreateOrUpdate ''rg'' ''job''
                     (assemble ''sub'' ''rg'' ''env'' ''eastus''
                        (example_config\<lparr>cfg_image := []\<rparr>) [] [])),
           Info ''Job created successfully: job'',
           SetOutput ''job-name'' ''job'',
           Info ''Starting job execution: job'',
           Remote (StartExecution ''rg'' ''job''),
           Info ''Job execution started: exec-1'',
           SetOutput ''execution-name'' ''exec-1'',
           Info ''Polling for job completion (timeout: 1800s)'',
           Remote (ExecutionGet ''rg'' ''job'' ''exec-1''),
           Info ''Job status: Succeeded'',
           Info ''=== Job Completed ==='',
           Info ''Status: undefined'',
           Info ''Exit Code: 0'',
           Info ''No Log Analytics Workspace ID provided, skipping log dump'',
           Info ''Deleting job: job'',
           Remote (DeleteJob ''rg'' ''job''),
           Info ''Job deleted successfully: job'']"
proof -
  have t: "terminal_status (ex_status succeeded_execution)"
    by (simp add: terminal_status_def succeeded_execution_def)
  have p: "pollJobExecution (finishing_with succeeded_execution (example_world no_image_inputs))
             ''rg'' ''job'' ''exec-1'' (Num 1800) =
           Some ([Info (''Polling for job completion (timeout: '' @ show_int 1800 @ ''s)''),
            Remote (ExecutionGet ''rg'' ''job'' ''exec-1''),
            Info (''Job status: '' @ show_opt (ex_status succeeded_execution))],
            Inr succeeded_execution)"
    by (rule poll_finishing_with [OF t]) (simp add: example_world_fields)
  have f: "final_status succeeded_execution = None" "final_exitCode succeeded_execution = 0"
    "ex_status succeeded_execution = Some ''Succeeded''"
    by (simp_all add: final_status_def final_exitCode_def succeeded_execution_def)
  have r: "run (finishing_with succeeded_execution (example_world no_image_inputs)) = Some
          [Info ''=== Azure Container App Job Configuration ==='',
           Info ''Subscription: sub'',
           Info ''Resource Group: rg'',
           Info ''Environment: env'',
           Info ''Job Name: job'',
           Info ''Image: '',
           Info ''Command: default'',
           Info ''Timeout: 1800s'',
           Info ''Run type: One off execution '',
           Info ''Authenticating with Azure...'',
           Info ''Creating job: job'',
           Remote (EnvironmentGet ''rg'' ''env''),
           Info ''Using location from environment: East US -> eastus'',
           Remote (CreateOrUpdate ''rg'' ''job''
                     (assemble ''sub'' ''rg'' ''env'' ''eastus''
                        (example_config\<lparr>cfg_image := []\<rparr>) [] [])),
           Info ''Job created successfully: job'',
           SetOutput ''job-name'' ''job'',
           Info ''Starting job execution: job'',
           Remote (StartExecution ''rg'' ''job''),
           Info ''Job execution started: exec-1'',
           SetOutput ''execution-name'' ''exec-1'',
           Info ''Polling for job completion (timeout: 1800s)'',
           Remote (ExecutionGet ''rg'' ''job'' ''exec-1''),
           Info ''Job status: Succeeded'',
           Info ''=== Job Completed ==='',
           Info ''Status: undefined'',
           Info ''Exit Code: 0'',
           Info ''No Log Analytics Workspace ID provided, skipping log dump'',
           Info ''Deleting job: job'',
           Remote (DeleteJob ''rg'' ''job''),
           Info ''Job deleted successfully: job'']"
    by (simp add: getInputs_finishing_with getInputs_no_image run_eval finishing_with_fields
          config_of_plain_inputs buildJobConfig_example p f running_execution_def trim_def)
  show ?thesis using getInputs_no_image r by (rule conjI)
qed

text \<open>
  Claim C9 says that the random suffix of a generated name always has six characters.
  The suffix is \<open>substring(2, 8)\<close> of the base-36 numeral of the random number, which is
  shorter when the numeral has fewer than six digits after the point: for the random
  number one half, whose numeral is \<open>0.i\<close>, the suffix is \<open>i\<close>.
\<close>

theorem short_random_suffix:
  "radix36_value ''0.i'' = 1 / 2
   \<and> generateJobName ((example_world [])\<lparr>w_random36 := ''0.i''\<rparr>) ''gh-job''
        = ''gh-job-1700000000000-i''
   \<and> substring 2 8 ''0.i'' = ''i''
   \<and> \<not> six_base36 (substring 2 8 ''0.i'')"
  by (simp add: radix36_value_def digit36_def base36_digits_def generateJobName_def
        substring_def six_base36_def example_world_def show_int_def decimal.simps digit_char_def)

text \<open>
  In general the name is prefix, hyphen, time stamp, hyphen, suffix; the suffix has six
  characters exactly when the numeral has at least six digits after the point.
\<close>

lemma generateJobName_form:
  "generateJobName w prefix =
     prefix @ ''-'' @ show_int (w_name_time w) @ ''-'' @ substring 2 8 (w_random36 w)
   \<and> length (substring 2 8 (w_random36 w)) = min 6 (length (w_random36 w) - 2)
   \<and> (six_base36 (substring 2 8 (w_random36 w)) \<longleftrightarrow>
        8 \<le> length (w_random36 w) \<and> set (substring 2 8 (w_random36 w)) \<subseteq> set base36_digits)"
  by (auto simp: generateJobName_def substring_def six_base36_def Let_def)

end
